theory Spec2Isabelle
  imports Complex_Main
begin

section \<open>JavaScript numbers\<close>

text \<open>
  Both calculators of ChargeLab compute with JavaScript numbers. A number is modelled
  as a finite real or one of the three special values of IEEE-754 arithmetic. The
  arithmetic on finite values is exact: rounding to 53 bits, overflow of a finite
  result and the sign of zero are not part of the model (the only zero is \<open>+0\<close>).
  What the model keeps is what the code branches on: a division by zero gives an
  infinity or \<open>NaN\<close>, every comparison with \<open>NaN\<close> is false, and \<open>0\<close> and
  \<open>NaN\<close> are falsy for \<open>||\<close> and \<open>&&\<close>.

  The properties below are therefore stated so that they do not depend on the exact
  value of a quotient, product or difference: as equations between the terms that the
  code computes, under hypotheses that keep the values away from underflow and
  overflow, or as bounds with a margin far above the rounding error.
\<close>

datatype jsnum = Fin real | PInf | NInf | NaN

fun is_finite :: "jsnum \<Rightarrow> bool" where
  "is_finite (Fin x) = True"
| "is_finite PInf = False"
| "is_finite NInf = False"
| "is_finite NaN = False"

text \<open>\<open>ToBoolean\<close> on a number: \<open>0\<close> and \<open>NaN\<close> are falsy.\<close>

fun truthy :: "jsnum \<Rightarrow> bool" where
  "truthy (Fin x) = (x \<noteq> 0)"
| "truthy PInf = True"
| "truthy NInf = True"
| "truthy NaN = False"

text \<open>The sign of a number other than \<open>NaN\<close>: \<open>-1\<close>, \<open>0\<close> or \<open>1\<close>.\<close>

fun js_sgn :: "jsnum \<Rightarrow> real" where
  "js_sgn (Fin x) = sgn x"
| "js_sgn PInf = 1"
| "js_sgn NInf = - 1"
| "js_sgn NaN = 0"

definition signed_inf :: "real \<Rightarrow> jsnum" where
  "signed_inf s = (if s = 0 then NaN else if 0 < s then PInf else NInf)"

text \<open>
  \<open>a * b\<close>: an infinity times zero is \<open>NaN\<close>. On two finite operands the model
  gives the exact product, where the code gives the product rounded to binary64 (an
  infinity when it overflows, a zero when it underflows).
\<close>

fun js_mul :: "jsnum \<Rightarrow> jsnum \<Rightarrow> jsnum" where
  "js_mul NaN b = NaN"
| "js_mul a NaN = NaN"
| "js_mul (Fin x) (Fin y) = Fin (x * y)"
| "js_mul a b = signed_inf (js_sgn a * js_sgn b)"

text \<open>
  \<open>a / b\<close>: a finite non-zero number over zero is an infinity, \<open>0 / 0\<close> and
  \<open>Infinity / Infinity\<close> are \<open>NaN\<close>, a finite number over an infinity is zero.
  On two finite operands with a divisor other than zero the model gives the exact
  quotient, where the code gives the quotient rounded to binary64.
\<close>

fun js_div :: "jsnum \<Rightarrow> jsnum \<Rightarrow> jsnum" where
  "js_div NaN b = NaN"
| "js_div a NaN = NaN"
| "js_div (Fin x) (Fin y) = (if y = 0 then signed_inf x else Fin (x / y))"
| "js_div (Fin x) b = Fin 0"
| "js_div a (Fin y) = (if y < 0 then signed_inf (- js_sgn a) else signed_inf (js_sgn a))"
| "js_div a b = NaN"

text \<open>\<open>a - b\<close>: the difference of two equal infinities is \<open>NaN\<close>.\<close>

fun js_sub :: "jsnum \<Rightarrow> jsnum \<Rightarrow> jsnum" where
  "js_sub NaN b = NaN"
| "js_sub a NaN = NaN"
| "js_sub (Fin x) (Fin y) = Fin (x - y)"
| "js_sub (Fin x) PInf = NInf"
| "js_sub (Fin x) NInf = PInf"
| "js_sub PInf (Fin y) = PInf"
| "js_sub NInf (Fin y) = NInf"
| "js_sub PInf NInf = PInf"
| "js_sub NInf PInf = NInf"
| "js_sub PInf PInf = NaN"
| "js_sub NInf NInf = NaN"

text \<open>\<open>a < b\<close> and \<open>a > b\<close>: false as soon as one side is \<open>NaN\<close>.\<close>

fun js_lt :: "jsnum \<Rightarrow> jsnum \<Rightarrow> bool" where
  "js_lt NaN b = False"
| "js_lt a NaN = False"
| "js_lt (Fin x) (Fin y) = (x < y)"
| "js_lt a PInf = (a \<noteq> PInf)"
| "js_lt NInf b = (b \<noteq> NInf)"
| "js_lt a b = False"

definition js_gt :: "jsnum \<Rightarrow> jsnum \<Rightarrow> bool" where
  "js_gt a b = js_lt b a"

text \<open>\<open>a <= b\<close> and \<open>a >= b\<close>, with the same treatment of \<open>NaN\<close>.\<close>

fun js_le :: "jsnum \<Rightarrow> jsnum \<Rightarrow> bool" where
  "js_le NaN b = False"
| "js_le a NaN = False"
| "js_le (Fin x) (Fin y) = (x \<le> y)"
| "js_le a PInf = True"
| "js_le NInf b = True"
| "js_le a b = False"

definition js_ge :: "jsnum \<Rightarrow> jsnum \<Rightarrow> bool" where
  "js_ge a b = js_le b a"

text \<open>\<open>a == b\<close> on numbers: \<open>NaN\<close> is equal to nothing.\<close>

fun js_eq :: "jsnum \<Rightarrow> jsnum \<Rightarrow> bool" where
  "js_eq NaN b = False"
| "js_eq a NaN = False"
| "js_eq a b = (a = b)"

text \<open>
  \<open>a || d\<close> where \<open>a\<close> is a number, \<open>undefined\<close> or \<open>null\<close> (the latter two
  are \<open>None\<close>) and \<open>d\<close> is a number.
\<close>

definition js_or :: "jsnum option \<Rightarrow> jsnum \<Rightarrow> jsnum" where
  "js_or a d = (case a of None \<Rightarrow> d | Some v \<Rightarrow> if truthy v then v else d)"

text \<open>\<open>a || null\<close>.\<close>

definition js_or_null :: "jsnum option \<Rightarrow> jsnum option" where
  "js_or_null a = (case a of None \<Rightarrow> None | Some v \<Rightarrow> if truthy v then Some v else None)"

text \<open>
  Formatting a number is the work of the host: \<open>Number.prototype.toFixed\<close>,
  \<open>Number.prototype.toExponential\<close> and the string conversion of a template
  literal are pure functions of the number, taken as parameters.
\<close>

record host =
  toFixed :: "nat \<Rightarrow> jsnum \<Rightarrow> string"
  toExponential :: "nat \<Rightarrow> jsnum \<Rightarrow> string"
  toStr :: "jsnum \<Rightarrow> string"

text \<open>
  One entry of a calculator's \<open>workSteps\<close>. In the string literals of the model the
  characters outside ASCII are transliterated (the subscript of \<open>MnO2\<close>, the
  division and multiplication signs, the arrow, the Greek letters).
\<close>

record step =
  title :: string
  description :: string
  calculations :: "string list"

section \<open>The chemistry module (\<open>chemistry.js\<close>)\<close>

subsection \<open>Constants\<close>

definition MOLAR_MASS_ZN :: jsnum where "MOLAR_MASS_ZN = Fin 65.38"
definition MOLAR_MASS_MNO2 :: jsnum where "MOLAR_MASS_MNO2 = Fin 86.936"
definition MOLAR_MASS_ZNO :: jsnum where "MOLAR_MASS_ZNO = Fin 81.38"
definition MOLAR_MASS_MN2O3 :: jsnum where "MOLAR_MASS_MN2O3 = Fin 157.87"
definition FARADAY :: jsnum where "FARADAY = Fin 96485"
definition DEFAULT_VOLTAGE :: jsnum where "DEFAULT_VOLTAGE = Fin 1.5"
definition DEFAULT_ELECTRONS :: jsnum where "DEFAULT_ELECTRONS = Fin 2"
definition STOICH_MNO2 :: jsnum where "STOICH_MNO2 = Fin 2"

subsection \<open>The calculator object\<close>

text \<open>
  The \<open>options\<close> argument of the constructor: a property that is absent (or
  \<open>undefined\<close> or \<open>null\<close>) is \<open>None\<close>.
\<close>

record chem_options =
  opt_molarMassZn :: "jsnum option"
  opt_molarMassMnO2 :: "jsnum option"
  opt_electronsPerReaction :: "jsnum option"
  opt_cellVoltage :: "jsnum option"
  opt_massZn :: "jsnum option"
  opt_massMnO2 :: "jsnum option"
  opt_resistance :: "jsnum option"

text \<open>The \<open>inputs\<close> object inside the results: a copy of the calculator's fields.\<close>

record chem_inputs =
  in_massZn :: jsnum
  in_massMnO2 :: jsnum
  in_molarMassZn :: jsnum
  in_molarMassMnO2 :: jsnum
  in_electronsPerReaction :: jsnum
  in_cellVoltage :: jsnum
  in_resistance :: "jsnum option"

text \<open>
  The results object. \<open>limitingReagent\<close> and \<open>excessReagent\<close> are the strings the
  source assigns; \<open>current\<close>, \<open>runtimeHours\<close> and \<open>runtimeMinutes\<close> are \<open>null\<close>
  (\<open>None\<close>) unless a load resistance is used.
\<close>

record chem_results =
  inputs :: chem_inputs
  molesZn :: jsnum
  molesMnO2 :: jsnum
  limitingReagent :: string
  excessReagent :: string
  molesReacting :: jsnum
  excessMoles :: jsnum
  massZnO :: jsnum
  massMn2O3 :: jsnum
  totalElectrons :: jsnum
  chargeQ :: jsnum
  energyJ :: jsnum
  energyWh :: jsnum
  current :: "jsnum option"
  runtimeHours :: "jsnum option"
  runtimeMinutes :: "jsnum option"
  timestamp :: string
  reaction :: string

text \<open>The fields of a \<open>ChemistryCalculator\<close>; \<open>resistance\<close> and \<open>results\<close> may be \<open>null\<close>.\<close>

record ChemistryCalculator =
  molarMassZn :: jsnum
  molarMassMnO2 :: jsnum
  electronsPerReaction :: jsnum
  cellVoltage :: jsnum
  massZn :: jsnum
  massMnO2 :: jsnum
  resistance :: "jsnum option"
  results :: "chem_results option"
  workSteps :: "step list"

text \<open>The constructor: every option goes through \<open>||\<close>, so a falsy value takes the default.\<close>

definition new_ChemistryCalculator :: "chem_options \<Rightarrow> ChemistryCalculator" where
  "new_ChemistryCalculator options =
     \<lparr> molarMassZn = js_or (opt_molarMassZn options) MOLAR_MASS_ZN,
       molarMassMnO2 = js_or (opt_molarMassMnO2 options) MOLAR_MASS_MNO2,
       electronsPerReaction = js_or (opt_electronsPerReaction options) DEFAULT_ELECTRONS,
       cellVoltage = js_or (opt_cellVoltage options) DEFAULT_VOLTAGE,
       massZn = js_or (opt_massZn options) (Fin 0),
       massMnO2 = js_or (opt_massMnO2 options) (Fin 0),
       resistance = js_or_null (opt_resistance options),
       results = None,
       workSteps = [] \<rparr>"

text \<open>The constructor called with no argument: \<open>options = {}\<close>.\<close>

definition no_options :: chem_options where
  "no_options =
     \<lparr> opt_molarMassZn = None, opt_molarMassMnO2 = None, opt_electronsPerReaction = None,
       opt_cellVoltage = None, opt_massZn = None, opt_massMnO2 = None,
       opt_resistance = None \<rparr>"

text \<open>
  \<open>CHEMISTRY_PRESETS.A\<close> and \<open>CHEMISTRY_PRESETS.B\<close> (the presets give the two
  masses), as options of the constructor.
\<close>

definition PRESET_A :: chem_options where
  "PRESET_A = no_options\<lparr> opt_massZn := Some (Fin 1.0), opt_massMnO2 := Some (Fin 2.0) \<rparr>"

definition PRESET_B :: chem_options where
  "PRESET_B = no_options\<lparr> opt_massZn := Some (Fin 10.0), opt_massMnO2 := Some (Fin 100.0) \<rparr>"

subsection \<open>\<open>ChemistryCalculator.calculate\<close>\<close>

text \<open>
  The guard of step 6, \<open>this.resistance && this.resistance > 0\<close>; it holds the
  resistance that passes.
\<close>

definition load_resistance :: "ChemistryCalculator \<Rightarrow> jsnum option" where
  "load_resistance this =
     (case resistance this of
        None \<Rightarrow> None
      | Some R \<Rightarrow> if truthy R \<and> js_gt R (Fin 0) then Some R else None)"

text \<open>
  The six objects that \<open>calculate\<close> pushes on \<open>workSteps\<close>, each a function of
  the values that its template literals interpolate.
\<close>

definition step_moles :: "host \<Rightarrow> ChemistryCalculator \<Rightarrow> jsnum \<Rightarrow> jsnum \<Rightarrow> step" where
  "step_moles h this molesZn' molesMnO2' =
     \<lparr> title = ''Convert mass to moles'',
       description = ''Using n = m/M where n is moles, m is mass, M is molar mass'',
       calculations =
        [''n(Zn) = '' @ toStr h (massZn this) @ '' g / '' @ toStr h (molarMassZn this)
           @ '' g/mol = '' @ toFixed h 6 molesZn' @ '' mol'',
         ''n(MnO2) = '' @ toStr h (massMnO2 this) @ '' g / '' @ toStr h (molarMassMnO2 this)
           @ '' g/mol = '' @ toFixed h 6 molesMnO2' @ '' mol''] \<rparr>"

definition step_limiting ::
  "host \<Rightarrow> jsnum \<Rightarrow> jsnum \<Rightarrow> jsnum \<Rightarrow> string \<Rightarrow> string \<Rightarrow> jsnum \<Rightarrow> step" where
  "step_limiting h molesZn' molesMnO2' requiredMnO2ForZn limitingReagent' excessReagent' excessMoles' =
     \<lparr> title = ''Identify limiting reagent'',
       description = ''Compare mole ratio to stoichiometric requirements (1 Zn : 2 MnO2)'',
       calculations =
        [''MnO2 required for all Zn = '' @ toFixed h 6 molesZn' @ '' x 2 = ''
           @ toFixed h 6 requiredMnO2ForZn @ '' mol'',
         ''MnO2 available = '' @ toFixed h 6 molesMnO2' @ '' mol'',
         (if js_lt molesMnO2' requiredMnO2ForZn then ''MnO2 < required''
          else ''MnO2 >= required'') @ '' -> '' @ limitingReagent' @ '' is limiting'',
         ''Excess '' @ excessReagent' @ '' = '' @ toFixed h 6 excessMoles' @ '' mol''] \<rparr>"

definition step_electrons :: "host \<Rightarrow> ChemistryCalculator \<Rightarrow> jsnum \<Rightarrow> jsnum \<Rightarrow> step" where
  "step_electrons h this molesReacting' totalElectrons' =
     \<lparr> title = ''Calculate electrons transferred'',
       description = ''Each reaction unit transfers '' @ toStr h (electronsPerReaction this)
           @ '' electrons'',
       calculations =
        [''Moles of reaction = '' @ toFixed h 6 molesReacting' @ '' mol'',
         ''Total electron-moles = '' @ toStr h (electronsPerReaction this) @ '' x ''
           @ toFixed h 6 molesReacting' @ '' = '' @ toFixed h 6 totalElectrons'
           @ '' mol e-''] \<rparr>"

definition step_charge :: "host \<Rightarrow> jsnum \<Rightarrow> jsnum \<Rightarrow> step" where
  "step_charge h totalElectrons' chargeQ' =
     \<lparr> title = ''Calculate total charge'',
       description = ''Using Q = n x F where F is Faraday constant (96485 C/mol)'',
       calculations =
        [''Q = '' @ toFixed h 6 totalElectrons' @ '' mol x '' @ toStr h FARADAY @ '' C/mol'',
         ''Q = '' @ toFixed h 2 chargeQ' @ '' C''] \<rparr>"

definition step_energy :: "host \<Rightarrow> ChemistryCalculator \<Rightarrow> jsnum \<Rightarrow> jsnum \<Rightarrow> jsnum \<Rightarrow> step" where
  "step_energy h this chargeQ' energyJ' energyWh' =
     \<lparr> title = ''Calculate theoretical energy'',
       description = ''Using E = V x Q with cell voltage = '' @ toStr h (cellVoltage this) @ '' V'',
       calculations =
        [''E = '' @ toStr h (cellVoltage this) @ '' V x '' @ toFixed h 2 chargeQ' @ '' C'',
         ''E = '' @ toFixed h 2 energyJ' @ '' J'',
         ''E = '' @ toFixed h 2 energyJ' @ '' / 3600 = '' @ toFixed h 4 energyWh' @ '' Wh''] \<rparr>"

definition step_runtime ::
  "host \<Rightarrow> ChemistryCalculator \<Rightarrow> jsnum \<Rightarrow> jsnum \<Rightarrow> jsnum \<Rightarrow> jsnum \<Rightarrow> jsnum \<Rightarrow> step" where
  "step_runtime h this R energyWh' current' runtimeHours' runtimeMinutes' =
     \<lparr> title = ''Estimate current and runtime (approximation)'',
       description = ''With load resistance R = '' @ toStr h R @ '' Ohm'',
       calculations =
        [''I = V/R = '' @ toStr h (cellVoltage this) @ '' V / '' @ toStr h R
           @ '' Ohm = '' @ toFixed h 4 current' @ '' A'',
         ''Power = V x I = '' @ toStr h (cellVoltage this) @ '' x '' @ toFixed h 4 current'
           @ '' = '' @ toFixed h 4 (js_mul (cellVoltage this) current') @ '' W'',
         ''Runtime = E/P = '' @ toFixed h 4 energyWh' @ '' Wh / ''
           @ toFixed h 4 (js_mul (cellVoltage this) current') @ '' W'',
         ''Runtime = '' @ toFixed h 4 runtimeHours' @ '' hours = ''
           @ toFixed h 2 runtimeMinutes' @ '' minutes'',
         ''Note: This is a theoretical estimate assuming constant voltage and no internal resistance.''] \<rparr>"

text \<open>
  \<open>calculate\<close> reads the fields of the calculator, empties \<open>workSteps\<close> and pushes
  five or six steps, stores the results object in \<open>results\<close> and returns it. The
  model returns the object and the calculator after the call. \<open>now\<close> is the value of
  \<open>new Date().toISOString()\<close> at the call.
\<close>

definition calculate ::
  "host \<Rightarrow> string \<Rightarrow> ChemistryCalculator \<Rightarrow> chem_results \<times> ChemistryCalculator" where
  "calculate h now this =
    (let ws0 = [];
         molesZn' = js_div (massZn this) (molarMassZn this);
         molesMnO2' = js_div (massMnO2 this) (molarMassMnO2 this);
         ws1 = ws0 @ [step_moles h this molesZn' molesMnO2'];
         requiredMnO2ForZn = js_mul molesZn' STOICH_MNO2;
         requiredZnForMnO2 = js_div molesMnO2' STOICH_MNO2;
         (limitingReagent', excessReagent', molesReacting', excessMoles') =
           (if js_lt molesMnO2' requiredMnO2ForZn
            then (''MnO2'', ''Zn'', js_div molesMnO2' STOICH_MNO2,
                  js_sub molesZn' requiredZnForMnO2)
            else (''Zn'', ''MnO2'', molesZn', js_sub molesMnO2' requiredMnO2ForZn));
         ws2 = ws1 @ [step_limiting h molesZn' molesMnO2' requiredMnO2ForZn
                        limitingReagent' excessReagent' excessMoles'];
         totalElectrons' = js_mul (electronsPerReaction this) molesReacting';
         ws3 = ws2 @ [step_electrons h this molesReacting' totalElectrons'];
         chargeQ' = js_mul totalElectrons' FARADAY;
         ws4 = ws3 @ [step_charge h totalElectrons' chargeQ'];
         energyJ' = js_mul (cellVoltage this) chargeQ';
         energyWh' = js_div energyJ' (Fin 3600);
         ws5 = ws4 @ [step_energy h this chargeQ' energyJ' energyWh'];
         (current', runtimeHours', runtimeMinutes', ws6) =
           (case load_resistance this of
              None \<Rightarrow> (None, None, None, ws5)
            | Some R \<Rightarrow>
               (let I = js_div (cellVoltage this) R;
                    hours = js_div energyWh' (js_mul (cellVoltage this) I);
                    minutes = js_mul hours (Fin 60)
                in (Some I, Some hours, Some minutes,
                    ws5 @ [step_runtime h this R energyWh' I hours minutes])));
         massZnO' = js_mul molesReacting' MOLAR_MASS_ZNO;
         massMn2O3' = js_mul molesReacting' MOLAR_MASS_MN2O3;
         res = \<lparr> inputs = \<lparr> in_massZn = massZn this, in_massMnO2 = massMnO2 this,
                     in_molarMassZn = molarMassZn this, in_molarMassMnO2 = molarMassMnO2 this,
                     in_electronsPerReaction = electronsPerReaction this,
                     in_cellVoltage = cellVoltage this, in_resistance = resistance this \<rparr>,
                 molesZn = molesZn', molesMnO2 = molesMnO2',
                 limitingReagent = limitingReagent', excessReagent = excessReagent',
                 molesReacting = molesReacting', excessMoles = excessMoles',
                 massZnO = massZnO', massMn2O3 = massMn2O3',
                 totalElectrons = totalElectrons', chargeQ = chargeQ',
                 energyJ = energyJ', energyWh = energyWh',
                 current = current', runtimeHours = runtimeHours',
                 runtimeMinutes = runtimeMinutes',
                 timestamp = now, reaction = ''Zn + 2MnO2 -> ZnO + Mn2O3'' \<rparr>
     in (res, this\<lparr> workSteps := ws6, results := Some res \<rparr>))"

section \<open>The physics module (\<open>MagneticFieldCalculator\<close>)\<close>

subsection \<open>Constants\<close>

text \<open>\<open>Math.PI\<close>, in the exact arithmetic of the model.\<close>

definition Math_PI :: jsnum where "Math_PI = Fin pi"

text \<open>\<open>MU_0: 4 * Math.PI * 1e-7\<close>.\<close>

definition MU_0 :: jsnum where
  "MU_0 = js_mul (js_mul (Fin 4) Math_PI) (Fin 0.0000001)"

text \<open>
  \<open>PERMEABILITY\<close>: the object's own properties, each with a \<open>name\<close> and a
  \<open>value\<close>.
\<close>

definition PERMEABILITY :: "(string \<times> string \<times> jsnum) list" where
  "PERMEABILITY =
     [(''air'', ''Air'', Fin 1), (''ferrite'', ''Ferrite'', Fin 2000),
      (''steel'', ''Steel'', Fin 4000)]"

subsection \<open>The calculator object\<close>

text \<open>
  The fields of a \<open>MagneticFieldCalculator\<close>. \<open>mf_current\<close>, \<open>mf_length\<close>,
  \<open>mf_results\<close> and \<open>mf_workSteps\<close> are the fields \<open>current\<close>, \<open>length\<close>,
  \<open>results\<close> and \<open>workSteps\<close> of the source; the results object and its
  \<open>inputs\<close> and \<open>constants\<close> are the records \<open>field_results\<close>,
  \<open>field_inputs\<close> and \<open>field_constants\<close>, their fields prefixed alike.
\<close>

record field_inputs =
  fi_current :: jsnum
  fi_turns :: jsnum
  fi_radius :: jsnum
  fi_length :: jsnum
  fi_distance :: jsnum
  fi_material :: string
  fi_mu_r :: jsnum

record field_constants =
  fc_mu_0 :: jsnum
  fc_mu :: jsnum

record field_results =
  fr_B :: jsnum
  fr_B_mT :: jsnum
  fr_B_uT :: jsnum
  fr_formula :: string
  fr_description :: string
  fr_conductorType :: string
  fr_inputs :: field_inputs
  fr_constants :: field_constants
  fr_timestamp :: string

record MagneticFieldCalculator =
  conductorType :: string
  mf_current :: jsnum
  turns :: jsnum
  radius :: jsnum
  mf_length :: jsnum
  distance :: jsnum
  material :: string
  mf_results :: "field_results option"
  mf_workSteps :: "step list"

text \<open>
  The \<open>options\<close> argument of the constructor; an absent property is \<open>None\<close>,
  and the empty string is falsy.
\<close>

record field_options =
  fo_conductorType :: "string option"
  fo_current :: "jsnum option"
  fo_turns :: "jsnum option"
  fo_radius :: "jsnum option"
  fo_length :: "jsnum option"
  fo_distance :: "jsnum option"
  fo_material :: "string option"

definition str_or :: "string option \<Rightarrow> string \<Rightarrow> string" where
  "str_or a d = (case a of None \<Rightarrow> d | Some v \<Rightarrow> if v = [] then d else v)"

definition new_MagneticFieldCalculator :: "field_options \<Rightarrow> MagneticFieldCalculator" where
  "new_MagneticFieldCalculator options =
     \<lparr> conductorType = str_or (fo_conductorType options) ''solenoid'',
       mf_current = js_or (fo_current options) (Fin 1),
       turns = js_or (fo_turns options) (Fin 100),
       radius = js_or (fo_radius options) (Fin 0.01),
       mf_length = js_or (fo_length options) (Fin 0.05),
       distance = js_or (fo_distance options) (Fin 0.01),
       material = str_or (fo_material options) ''air'',
       mf_results = None,
       mf_workSteps = [] \<rparr>"

subsection \<open>\<open>getMu_r\<close>\<close>

text \<open>
  \<open>PHYSICS_CONSTANTS.PERMEABILITY[this.material]?.value || 1\<close>. A key that is not
  an own property of the table gives \<open>undefined\<close>, or an object inherited from
  \<open>Object.prototype\<close> (for \<open>constructor\<close>, \<open>toString\<close> and the like) that has
  no \<open>value\<close> property: \<open>?.value\<close> is \<open>undefined\<close> in both cases, which is
  \<open>None\<close> here.
\<close>

definition getMu_r :: "MagneticFieldCalculator \<Rightarrow> jsnum" where
  "getMu_r this = js_or (map_option snd (map_of PERMEABILITY (material this))) (Fin 1)"

subsection \<open>The three formulas\<close>

definition step_wire :: "host \<Rightarrow> MagneticFieldCalculator \<Rightarrow> jsnum \<Rightarrow> jsnum \<Rightarrow> step" where
  "step_wire h this mu_0 B =
     \<lparr> title = ''Apply Biot-Savart law for straight wire'',
       description = ''For an infinitely long straight conductor carrying current I'',
       calculations =
        [''Formula: B = mu0 x I / (2 pi r)'',
         ''mu0 = '' @ toExponential h 4 mu_0 @ '' H/m'',
         ''I = '' @ toStr h (mf_current this) @ '' A'',
         ''r = '' @ toStr h (js_mul (distance this) (Fin 100)) @ '' cm = ''
           @ toStr h (distance this) @ '' m'',
         ''B = ('' @ toExponential h 4 mu_0 @ '' x '' @ toStr h (mf_current this)
           @ '') / (2 pi x '' @ toStr h (distance this) @ '')'',
         ''B = '' @ toExponential h 4 B @ '' T = ''
           @ toFixed h 2 (js_mul B (Fin 1000000)) @ '' uT''] \<rparr>"

definition step_wire_direction :: step where
  "step_wire_direction =
     \<lparr> title = ''Direction (Right-Hand Rule)'',
       description = ''Point thumb in direction of current flow'',
       calculations =
        [''Fingers curl in direction of magnetic field lines'',
         ''Field forms concentric circles around the wire'',
         ''Field strength decreases with distance (1/r relationship)''] \<rparr>"

definition calculateStraightWire ::
  "host \<Rightarrow> jsnum \<Rightarrow> MagneticFieldCalculator \<Rightarrow> jsnum \<times> MagneticFieldCalculator" where
  "calculateStraightWire h mu_0 this =
     (let B = js_div (js_mul mu_0 (mf_current this))
                (js_mul (js_mul (Fin 2) Math_PI) (distance this))
      in (B, this\<lparr> mf_workSteps :=
                     mf_workSteps this @ [step_wire h this mu_0 B] @ [step_wire_direction] \<rparr>))"

definition step_loop :: "host \<Rightarrow> MagneticFieldCalculator \<Rightarrow> jsnum \<Rightarrow> jsnum \<Rightarrow> jsnum \<Rightarrow> step" where
  "step_loop h this mu_0 mu_r B =
     \<lparr> title = ''Calculate field at center of circular coil'',
       description = ''For '' @ toStr h (turns this) @ '' turns of radius ''
           @ toStr h (js_mul (radius this) (Fin 100)) @ '' cm'',
       calculations =
        [''Formula: B = mu0 x mur x N x I / (2r)'',
         ''mu0 = '' @ toExponential h 4 mu_0 @ '' H/m'',
         ''mur = '' @ toStr h mu_r @ '' ('' @ material this @ '')'',
         ''N = '' @ toStr h (turns this) @ '' turns'',
         ''I = '' @ toStr h (mf_current this) @ '' A'',
         ''r = '' @ toStr h (js_mul (radius this) (Fin 100)) @ '' cm = ''
           @ toStr h (radius this) @ '' m'',
         ''B = ('' @ toExponential h 4 mu_0 @ '' x '' @ toStr h mu_r @ '' x ''
           @ toStr h (turns this) @ '' x '' @ toStr h (mf_current this) @ '') / (2 x ''
           @ toStr h (radius this) @ '')'',
         ''B = '' @ toExponential h 4 B @ '' T = ''
           @ toFixed h 4 (js_mul B (Fin 1000)) @ '' mT''] \<rparr>"

definition step_loop_direction :: step where
  "step_loop_direction =
     \<lparr> title = ''Direction (Right-Hand Rule for Loops)'',
       description = ''Curl fingers in direction of current around loop'',
       calculations =
        [''Thumb points in direction of B-field through center'',
         ''Field is strongest at the center of the loop'',
         ''This approximation applies at the exact center only''] \<rparr>"

definition calculateSingleLoop ::
  "host \<Rightarrow> jsnum \<Rightarrow> jsnum \<Rightarrow> MagneticFieldCalculator \<Rightarrow> jsnum \<times> MagneticFieldCalculator" where
  "calculateSingleLoop h mu_0 mu_r this =
     (let B = js_div (js_mul (js_mul (js_mul mu_0 mu_r) (turns this)) (mf_current this))
                (js_mul (Fin 2) (radius this))
      in (B, this\<lparr> mf_workSteps :=
                     mf_workSteps this @ [step_loop h this mu_0 mu_r B] @ [step_loop_direction] \<rparr>))"

definition step_solenoid :: "host \<Rightarrow> MagneticFieldCalculator \<Rightarrow> jsnum \<Rightarrow> jsnum \<Rightarrow> jsnum \<Rightarrow> step" where
  "step_solenoid h this mu_0 mu_r B =
     \<lparr> title = ''Apply solenoid formula'',
       description = ''For solenoid with '' @ toStr h (turns this) @ '' turns over ''
           @ toStr h (js_mul (mf_length this) (Fin 100)) @ '' cm length'',
       calculations =
        [''Formula: B = mu0 x mur x N x I / L'',
         ''mu0 = '' @ toExponential h 4 mu_0 @ '' H/m'',
         ''mur = '' @ toStr h mu_r @ '' ('' @ material this @ '')'',
         ''N = '' @ toStr h (turns this) @ '' turns'',
         ''I = '' @ toStr h (mf_current this) @ '' A'',
         ''L = '' @ toStr h (js_mul (mf_length this) (Fin 100)) @ '' cm = ''
           @ toStr h (mf_length this) @ '' m'',
         ''B = ('' @ toExponential h 4 mu_0 @ '' x '' @ toStr h mu_r @ '' x ''
           @ toStr h (turns this) @ '' x '' @ toStr h (mf_current this) @ '') / ''
           @ toStr h (mf_length this),
         ''B = '' @ toExponential h 4 B @ '' T = ''
           @ toFixed h 4 (js_mul B (Fin 1000)) @ '' mT''] \<rparr>"

definition step_solenoid_properties :: step where
  "step_solenoid_properties =
     \<lparr> title = ''Solenoid field properties'',
       description = ''Understanding the approximation limits'',
       calculations =
        [''This formula gives the field at the CENTER of a long solenoid'',
         ''Accuracy improves when length >> radius'',
         ''Field is approximately uniform inside, near zero outside'',
         ''At the ends, B ~ half the center value''] \<rparr>"

definition step_turns_density :: "host \<Rightarrow> MagneticFieldCalculator \<Rightarrow> step" where
  "step_turns_density h this =
     \<lparr> title = ''Turns density (n)'',
       description = ''Alternative formulation using turns per unit length'',
       calculations =
        [''n = N/L = '' @ toStr h (turns this) @ ''/'' @ toStr h (mf_length this) @ '' = ''
           @ toFixed h 1 (js_div (turns this) (mf_length this)) @ '' turns/m'',
         ''B = mu0 x mur x n x I'',
         ''This shows B is proportional to turns density, not total turns''] \<rparr>"

definition calculateSolenoid ::
  "host \<Rightarrow> jsnum \<Rightarrow> jsnum \<Rightarrow> MagneticFieldCalculator \<Rightarrow> jsnum \<times> MagneticFieldCalculator" where
  "calculateSolenoid h mu_0 mu_r this =
     (let B = js_div (js_mul (js_mul (js_mul mu_0 mu_r) (turns this)) (mf_current this))
                (mf_length this)
      in (B, this\<lparr> mf_workSteps :=
                     mf_workSteps this @ [step_solenoid h this mu_0 mu_r B]
                       @ [step_solenoid_properties] @ [step_turns_density h this] \<rparr>))"

subsection \<open>\<open>MagneticFieldCalculator.calculate\<close>\<close>

text \<open>
  The \<open>switch\<close> compares \<open>conductorType\<close> with the two first labels; the label
  \<open>solenoid\<close> shares its body with \<open>default\<close>. The model returns the results object
  and the calculator after the call.
\<close>

definition mf_calculate ::
  "host \<Rightarrow> string \<Rightarrow> MagneticFieldCalculator \<Rightarrow> field_results \<times> MagneticFieldCalculator" where
  "mf_calculate h now this0 =
    (let this1 = this0\<lparr> mf_workSteps := [] \<rparr>;
         mu_r = getMu_r this1;
         mu_0 = MU_0;
         mu = js_mul mu_0 mu_r;
         ((B, this2), formula, description') =
           (if conductorType this1 = ''straight-wire''
            then (calculateStraightWire h mu_0 this1,
                  ''B = mu0 x I / (2 pi r)'',
                  ''Magnetic field around an infinite straight conductor'')
            else if conductorType this1 = ''single-loop''
            then (calculateSingleLoop h mu_0 mu_r this1,
                  ''B ~ mu0 x mur x N x I / (2r)'',
                  ''Magnetic field at the center of a circular loop (or coil)'')
            else (calculateSolenoid h mu_0 mu_r this1,
                  ''B = mu0 x mur x N x I / L'',
                  ''Magnetic field inside a solenoid (center approximation)''));
         res = \<lparr> fr_B = B,
                 fr_B_mT = js_mul B (Fin 1000),
                 fr_B_uT = js_mul B (Fin 1000000),
                 fr_formula = formula,
                 fr_description = description',
                 fr_conductorType = conductorType this2,
                 fr_inputs = \<lparr> fi_current = mf_current this2, fi_turns = turns this2,
                                fi_radius = radius this2, fi_length = mf_length this2,
                                fi_distance = distance this2, fi_material = material this2,
                                fi_mu_r = mu_r \<rparr>,
                 fr_constants = \<lparr> fc_mu_0 = mu_0, fc_mu = js_mul mu_0 mu_r \<rparr>,
                 fr_timestamp = now \<rparr>
     in (res, this2\<lparr> mf_results := Some res \<rparr>))"

section \<open>Vocabulary of the properties\<close>

text \<open>
  A host whose formatting functions return the empty string, for evaluating the
  calculators on concrete inputs.
\<close>

definition plain_host :: host where
  "plain_host = \<lparr> toFixed = (\<lambda>d x. []), toExponential = (\<lambda>d x. []), toStr = (\<lambda>x. []) \<rparr>"

text \<open>\<open>rel_close tol a b\<close>: \<open>a\<close> is within the relative tolerance \<open>tol\<close> of \<open>b\<close>.\<close>

fun rel_close :: "real \<Rightarrow> jsnum \<Rightarrow> jsnum \<Rightarrow> bool" where
  "rel_close tol (Fin a) (Fin b) = (\<bar>a - b\<bar> \<le> tol * \<bar>b\<bar>)"
| "rel_close tol a b = False"

text \<open>
  \<open>about v tol x\<close>: the number \<open>x\<close> is finite and within \<open>tol\<close> of \<open>v\<close>. A
  value quoted with \<open>k\<close> decimals is read with \<open>tol\<close> half a unit of the last
  decimal.
\<close>

fun about :: "real \<Rightarrow> real \<Rightarrow> jsnum \<Rightarrow> bool" where
  "about v tol (Fin x) = (\<bar>x - v\<bar> \<le> tol)"
| "about v tol a = False"

text \<open>
  \<open>Number.MAX_VALUE\<close>, the largest finite number of binary64. The arithmetic of the
  model does not overflow, so a computed value stands for a finite number of the code
  only when its magnitude is at most \<open>MAX_VALUE\<close>: that is \<open>isFinite_binary64\<close>.
\<close>

definition MAX_VALUE :: real where
  "MAX_VALUE = (2 ^ 53 - 1) * 2 ^ 971"

fun isFinite_binary64 :: "jsnum \<Rightarrow> bool" where
  "isFinite_binary64 (Fin x) = (\<bar>x\<bar> \<le> MAX_VALUE)"
| "isFinite_binary64 a = False"

text \<open>
  \<open>rounded x y\<close>: \<open>y\<close> is \<open>x\<close> with a relative error of at most \<open>2^-53\<close>, the
  error of a binary64 operation whose exact result is \<open>x\<close> when it neither underflows
  nor overflows. \<open>no_underflow_overflow j\<close> keeps \<open>j\<close>, \<open>j / 3600\<close> and their
  roundings in that range.
\<close>

definition rounded :: "real \<Rightarrow> real \<Rightarrow> bool" where
  "rounded x y = (\<bar>y - x\<bar> \<le> \<bar>x\<bar> / 2 ^ 53)"

definition no_underflow_overflow :: "real \<Rightarrow> bool" where
  "no_underflow_overflow j = (j = 0 \<or> 1 / 2 ^ 1000 \<le> \<bar>j\<bar> \<and> \<bar>j\<bar> \<le> 2 ^ 1000)"

text \<open>Inputs for the examples.\<close>

definition INFINITE_MASSES :: chem_options where
  "INFINITE_MASSES = no_options\<lparr> opt_massZn := Some PInf, opt_massMnO2 := Some PInf \<rparr>"

definition INFINITE_VOLTAGE :: chem_options where
  "INFINITE_VOLTAGE = no_options\<lparr> opt_cellVoltage := Some PInf \<rparr>"


definition TIE_INPUT :: chem_options where
  "TIE_INPUT = no_options\<lparr> opt_massZn := Some (Fin 65.38), opt_massMnO2 := Some (Fin 173.872) \<rparr>"

definition ZERO_MOLAR_MASS :: chem_options where
  "ZERO_MOLAR_MASS =
     no_options\<lparr> opt_massZn := Some (Fin 1), opt_massMnO2 := Some (Fin 2),
                 opt_molarMassZn := Some (Fin 0), opt_molarMassMnO2 := Some (Fin 0) \<rparr>"

text \<open>\<open>PHYSICS_PRESETS.solenoid\<close>, as options of the constructor.\<close>

definition PRESET_SOLENOID :: field_options where
  "PRESET_SOLENOID =
     \<lparr> fo_conductorType = Some ''solenoid'', fo_current = Some (Fin 2),
       fo_turns = Some (Fin 200), fo_radius = None, fo_length = Some (Fin 0.05),
       fo_distance = None, fo_material = Some ''air'' \<rparr>"

section \<open>Properties of the chemistry calculator\<close>

lemmas chemistry_constants =
  MOLAR_MASS_ZN_def MOLAR_MASS_MNO2_def MOLAR_MASS_ZNO_def MOLAR_MASS_MN2O3_def
  FARADAY_def DEFAULT_VOLTAGE_def DEFAULT_ELECTRONS_def STOICH_MNO2_def

subsection \<open>The fields of the results object\<close>

lemma calculate_moles:
  "molesZn (fst (calculate h now c)) = js_div (massZn c) (molarMassZn c)"
  "molesMnO2 (fst (calculate h now c)) = js_div (massMnO2 c) (molarMassMnO2 c)"
  by (simp_all add: calculate_def Let_def split_def)

lemma calculate_limiting:
  "(limitingReagent (fst (calculate h now c)), excessReagent (fst (calculate h now c)),
    molesReacting (fst (calculate h now c)), excessMoles (fst (calculate h now c))) =
   (let molesZn' = js_div (massZn c) (molarMassZn c);
        molesMnO2' = js_div (massMnO2 c) (molarMassMnO2 c)
    in if js_lt molesMnO2' (js_mul molesZn' (Fin 2))
       then (''MnO2'', ''Zn'', js_div molesMnO2' (Fin 2),
             js_sub molesZn' (js_div molesMnO2' (Fin 2)))
       else (''Zn'', ''MnO2'', molesZn', js_sub molesMnO2' (js_mul molesZn' (Fin 2))))"
  by (simp add: calculate_def Let_def split_def STOICH_MNO2_def)

lemma calculate_electrochemistry:
  "totalElectrons (fst (calculate h now c)) =
     js_mul (electronsPerReaction c) (molesReacting (fst (calculate h now c)))"
  "chargeQ (fst (calculate h now c)) =
     js_mul (totalElectrons (fst (calculate h now c))) (Fin 96485)"
  "energyJ (fst (calculate h now c)) =
     js_mul (cellVoltage c) (chargeQ (fst (calculate h now c)))"
  "energyWh (fst (calculate h now c)) = js_div (energyJ (fst (calculate h now c))) (Fin 3600)"
  by (simp_all add: calculate_def Let_def split_def FARADAY_def)

lemma new_ChemistryCalculator_fields:
  "molarMassZn (new_ChemistryCalculator opts) = js_or (opt_molarMassZn opts) (Fin 65.38)"
  "molarMassMnO2 (new_ChemistryCalculator opts) = js_or (opt_molarMassMnO2 opts) (Fin 86.936)"
  "electronsPerReaction (new_ChemistryCalculator opts) =
     js_or (opt_electronsPerReaction opts) (Fin 2)"
  "cellVoltage (new_ChemistryCalculator opts) = js_or (opt_cellVoltage opts) (Fin 1.5)"
  "massZn (new_ChemistryCalculator opts) = js_or (opt_massZn opts) (Fin 0)"
  "massMnO2 (new_ChemistryCalculator opts) = js_or (opt_massMnO2 opts) (Fin 0)"
  "resistance (new_ChemistryCalculator opts) = js_or_null (opt_resistance opts)"
  by (simp_all add: new_ChemistryCalculator_def chemistry_constants)

lemma finite_cases: "is_finite a \<Longrightarrow> (\<And>x. a = Fin x \<Longrightarrow> P) \<Longrightarrow> P"
  by (cases a) simp_all

subsection \<open>The limiting reagent\<close>

lemma tie_input_fields:
  "massZn (new_ChemistryCalculator TIE_INPUT) = Fin 65.38"
  "massMnO2 (new_ChemistryCalculator TIE_INPUT) = Fin 173.872"
  "molarMassZn (new_ChemistryCalculator TIE_INPUT) = Fin 65.38"
  "molarMassMnO2 (new_ChemistryCalculator TIE_INPUT) = Fin 86.936"
  "electronsPerReaction (new_ChemistryCalculator TIE_INPUT) = Fin 2"
  "cellVoltage (new_ChemistryCalculator TIE_INPUT) = Fin 1.5"
  by (simp_all add: new_ChemistryCalculator_fields TIE_INPUT_def no_options_def js_or_def)

lemma tie_input_moles:
  "molesZn (fst (calculate h now (new_ChemistryCalculator TIE_INPUT))) = Fin 1"
  "molesMnO2 (fst (calculate h now (new_ChemistryCalculator TIE_INPUT))) = Fin 2"
  by (simp_all add: calculate_moles tie_input_fields)

lemma infinite_masses_fields:
  "massZn (new_ChemistryCalculator INFINITE_MASSES) = PInf"
  "massMnO2 (new_ChemistryCalculator INFINITE_MASSES) = PInf"
  "molarMassZn (new_ChemistryCalculator INFINITE_MASSES) = Fin 65.38"
  "molarMassMnO2 (new_ChemistryCalculator INFINITE_MASSES) = Fin 86.936"
  by (simp_all add: new_ChemistryCalculator_fields INFINITE_MASSES_def no_options_def js_or_def)

lemma infinite_masses_moles:
  "molesZn (fst (calculate h now (new_ChemistryCalculator INFINITE_MASSES))) = PInf"
  "molesMnO2 (fst (calculate h now (new_ChemistryCalculator INFINITE_MASSES))) = PInf"
  by (simp_all add: calculate_moles infinite_masses_fields signed_inf_def)

lemma infinite_masses_limiting:
  "limitingReagent (fst (calculate h now (new_ChemistryCalculator INFINITE_MASSES))) = ''Zn''"
  "excessReagent (fst (calculate h now (new_ChemistryCalculator INFINITE_MASSES))) = ''MnO2''"
  "excessMoles (fst (calculate h now (new_ChemistryCalculator INFINITE_MASSES))) = NaN"
  using calculate_limiting [of h now "new_ChemistryCalculator INFINITE_MASSES"]
  by (simp_all add: infinite_masses_fields signed_inf_def Let_def)

lemma js_eq_not_lt: "js_eq a b \<Longrightarrow> \<not> js_lt a b"
  by (cases a; cases b) auto

lemma js_eq_finite_sub: "js_eq a b \<Longrightarrow> isFinite_binary64 a \<Longrightarrow> js_sub a b = Fin 0"
  by (cases a; cases b) auto

text \<open>
  C1, as stated: in the tie \<open>molesMnO2 == requiredMnO2ForZn\<close> the excess of MnO2 is
  0, for every input with positive molar masses. With both masses \<open>Infinity\<close> and
  the default molar masses both mole counts are \<open>Infinity\<close>, the tie holds, Zn is
  limiting, and the excess \<open>Infinity - Infinity\<close> is \<open>NaN\<close>.
\<close>

theorem tie_infinite_masses_counterexample:
  "js_gt (molarMassZn (new_ChemistryCalculator INFINITE_MASSES)) (Fin 0) \<and>
   js_gt (molarMassMnO2 (new_ChemistryCalculator INFINITE_MASSES)) (Fin 0) \<and>
   js_eq (molesMnO2 (fst (calculate plain_host [] (new_ChemistryCalculator INFINITE_MASSES))))
     (js_mul (molesZn (fst (calculate plain_host [] (new_ChemistryCalculator INFINITE_MASSES))))
        (Fin 2)) \<and>
   limitingReagent (fst (calculate plain_host [] (new_ChemistryCalculator INFINITE_MASSES))) =
     ''Zn'' \<and>
   excessMoles (fst (calculate plain_host [] (new_ChemistryCalculator INFINITE_MASSES))) = NaN \<and>
   \<not> js_eq (excessMoles (fst (calculate plain_host [] (new_ChemistryCalculator INFINITE_MASSES))))
     (Fin 0)"
  by (simp add: infinite_masses_fields infinite_masses_moles infinite_masses_limiting
        js_gt_def signed_inf_def)

text \<open>
  C1, amended. \<open>calculate\<close> computes \<open>molesZn = massZn / molarMassZn\<close> and
  \<open>molesMnO2 = massMnO2 / molarMassMnO2\<close>, and decides on these computed mole counts.
  With \<open>requiredMnO2ForZn = molesZn * 2\<close>: if \<open>molesMnO2 < requiredMnO2ForZn\<close> then
  MnO2 is limiting, Zn is in excess, \<open>molesReacting = molesMnO2 / 2\<close> and the excess
  is \<open>molesZn - molesMnO2 / 2\<close>; otherwise Zn is limiting, MnO2 is in excess,
  \<open>molesReacting = molesZn\<close> and the excess is \<open>molesMnO2 - molesZn * 2\<close>. The tie
  \<open>molesMnO2 == requiredMnO2ForZn\<close> takes the second branch, and its excess of MnO2
  is 0 when \<open>molesMnO2\<close> is finite.
\<close>

theorem limiting_reagent_step:
  "(let r = fst (calculate h now c);
        requiredMnO2ForZn = js_mul (molesZn r) (Fin 2)
    in molesZn r = js_div (massZn c) (molarMassZn c) \<and>
       molesMnO2 r = js_div (massMnO2 c) (molarMassMnO2 c) \<and>
       (limitingReagent r, excessReagent r, molesReacting r, excessMoles r) =
         (if js_lt (molesMnO2 r) requiredMnO2ForZn
          then (''MnO2'', ''Zn'', js_div (molesMnO2 r) (Fin 2),
                js_sub (molesZn r) (js_div (molesMnO2 r) (Fin 2)))
          else (''Zn'', ''MnO2'', molesZn r, js_sub (molesMnO2 r) requiredMnO2ForZn)) \<and>
       (js_eq (molesMnO2 r) requiredMnO2ForZn \<longrightarrow>
          limitingReagent r = ''Zn'' \<and> excessReagent r = ''MnO2'' \<and>
          molesReacting r = molesZn r \<and>
          excessMoles r = js_sub (molesMnO2 r) requiredMnO2ForZn \<and>
          (isFinite_binary64 (molesMnO2 r) \<longrightarrow> excessMoles r = Fin 0)))"
proof -
  let ?r = "fst (calculate h now c)"
  let ?req = "js_mul (molesZn ?r) (Fin 2)"
  have branch:
    "(limitingReagent ?r, excessReagent ?r, molesReacting ?r, excessMoles ?r) =
       (if js_lt (molesMnO2 ?r) ?req
        then (''MnO2'', ''Zn'', js_div (molesMnO2 ?r) (Fin 2),
              js_sub (molesZn ?r) (js_div (molesMnO2 ?r) (Fin 2)))
        else (''Zn'', ''MnO2'', molesZn ?r, js_sub (molesMnO2 ?r) ?req))"
    using calculate_limiting [of h now c] by (simp only: calculate_moles Let_def)
  have tie: "limitingReagent ?r = ''Zn'' \<and> excessReagent ?r = ''MnO2'' \<and>
      molesReacting ?r = molesZn ?r \<and> excessMoles ?r = js_sub (molesMnO2 ?r) ?req \<and>
      (isFinite_binary64 (molesMnO2 ?r) \<longrightarrow> excessMoles ?r = Fin 0)"
    if eq: "js_eq (molesMnO2 ?r) ?req"
  proof -
    have "\<not> js_lt (molesMnO2 ?r) ?req"
      using eq by (rule js_eq_not_lt)
    then have "(limitingReagent ?r, excessReagent ?r, molesReacting ?r, excessMoles ?r) =
        (''Zn'', ''MnO2'', molesZn ?r, js_sub (molesMnO2 ?r) ?req)"
      using branch by simp
    then show ?thesis
      using js_eq_finite_sub [OF eq] by simp
  qed
  show ?thesis
    unfolding Let_def using branch tie calculate_moles [of h now c] by blast
qed

theorem limiting_reagent_step_witness:
  "js_eq (molesMnO2 (fst (calculate plain_host [] (new_ChemistryCalculator TIE_INPUT))))
     (js_mul (molesZn (fst (calculate plain_host [] (new_ChemistryCalculator TIE_INPUT))))
        (Fin 2)) \<and>
   isFinite_binary64
     (molesMnO2 (fst (calculate plain_host [] (new_ChemistryCalculator TIE_INPUT)))) \<and>
   molesZn (fst (calculate plain_host [] (new_ChemistryCalculator TIE_INPUT))) = Fin 1 \<and>
   molesMnO2 (fst (calculate plain_host [] (new_ChemistryCalculator TIE_INPUT))) = Fin 2 \<and>
   limitingReagent (fst (calculate plain_host [] (new_ChemistryCalculator TIE_INPUT))) = ''Zn'' \<and>
   excessReagent (fst (calculate plain_host [] (new_ChemistryCalculator TIE_INPUT))) = ''MnO2'' \<and>
   molesReacting (fst (calculate plain_host [] (new_ChemistryCalculator TIE_INPUT))) = Fin 1 \<and>
   excessMoles (fst (calculate plain_host [] (new_ChemistryCalculator TIE_INPUT))) = Fin 0"
proof -
  let ?r = "fst (calculate plain_host [] (new_ChemistryCalculator TIE_INPUT))"
  have tie: "js_eq (molesMnO2 ?r) (js_mul (molesZn ?r) (Fin 2))"
    and fin: "isFinite_binary64 (molesMnO2 ?r)"
    by (simp_all add: tie_input_moles MAX_VALUE_def)
  have "limitingReagent ?r = ''Zn'' \<and> excessReagent ?r = ''MnO2'' \<and>
        molesReacting ?r = molesZn ?r \<and> excessMoles ?r = Fin 0"
    using limiting_reagent_step [of plain_host "[]" "new_ChemistryCalculator TIE_INPUT"] tie fin
    unfolding Let_def by blast
  then show ?thesis
    using tie fin by (simp add: tie_input_moles)
qed

lemma preset_A_fields:
  "molarMassZn (new_ChemistryCalculator PRESET_A) = Fin 65.38"
  "molarMassMnO2 (new_ChemistryCalculator PRESET_A) = Fin 86.936"
  "electronsPerReaction (new_ChemistryCalculator PRESET_A) = Fin 2"
  "cellVoltage (new_ChemistryCalculator PRESET_A) = Fin 1.5"
  "massZn (new_ChemistryCalculator PRESET_A) = Fin 1"
  "massMnO2 (new_ChemistryCalculator PRESET_A) = Fin 2"
  "resistance (new_ChemistryCalculator PRESET_A) = None"
  by (simp_all add: new_ChemistryCalculator_fields PRESET_A_def no_options_def js_or_def
        js_or_null_def)

lemma preset_B_fields:
  "molarMassZn (new_ChemistryCalculator PRESET_B) = Fin 65.38"
  "molarMassMnO2 (new_ChemistryCalculator PRESET_B) = Fin 86.936"
  "electronsPerReaction (new_ChemistryCalculator PRESET_B) = Fin 2"
  "cellVoltage (new_ChemistryCalculator PRESET_B) = Fin 1.5"
  "massZn (new_ChemistryCalculator PRESET_B) = Fin 10"
  "massMnO2 (new_ChemistryCalculator PRESET_B) = Fin 100"
  by (simp_all add: new_ChemistryCalculator_fields PRESET_B_def no_options_def js_or_def)

lemma preset_A_limiting:
  "limitingReagent (fst (calculate h now (new_ChemistryCalculator PRESET_A))) = ''MnO2''"
  "excessReagent (fst (calculate h now (new_ChemistryCalculator PRESET_A))) = ''Zn''"
  "molesReacting (fst (calculate h now (new_ChemistryCalculator PRESET_A))) = Fin (1 / 86.936)"
  using calculate_limiting [of h now "new_ChemistryCalculator PRESET_A"]
  by (simp_all add: preset_A_fields Let_def)

lemma preset_B_limiting:
  "limitingReagent (fst (calculate h now (new_ChemistryCalculator PRESET_B))) = ''Zn''"
  "excessReagent (fst (calculate h now (new_ChemistryCalculator PRESET_B))) = ''MnO2''"
  "molesReacting (fst (calculate h now (new_ChemistryCalculator PRESET_B))) = Fin (10 / 65.38)"
  using calculate_limiting [of h now "new_ChemistryCalculator PRESET_B"]
  by (simp_all add: preset_B_fields Let_def)

text \<open>
  C2, as stated: for every input with positive masses and molar masses the excess
  moles are \<open>>= 0\<close>. With both masses \<open>Infinity\<close> (which is \<open>> 0\<close>) and the
  default molar masses, MnO2 is reported in excess with \<open>NaN\<close> moles.
\<close>

theorem excess_infinite_masses_counterexample:
  "js_gt (massZn (new_ChemistryCalculator INFINITE_MASSES)) (Fin 0) \<and>
   js_gt (massMnO2 (new_ChemistryCalculator INFINITE_MASSES)) (Fin 0) \<and>
   js_gt (molarMassZn (new_ChemistryCalculator INFINITE_MASSES)) (Fin 0) \<and>
   js_gt (molarMassMnO2 (new_ChemistryCalculator INFINITE_MASSES)) (Fin 0) \<and>
   excessReagent (fst (calculate plain_host [] (new_ChemistryCalculator INFINITE_MASSES))) =
     ''MnO2'' \<and>
   excessMoles (fst (calculate plain_host [] (new_ChemistryCalculator INFINITE_MASSES))) = NaN \<and>
   \<not> js_ge (excessMoles (fst (calculate plain_host [] (new_ChemistryCalculator INFINITE_MASSES))))
     (Fin 0)"
  by (simp add: infinite_masses_fields infinite_masses_limiting js_gt_def js_ge_def)

text \<open>
  C2, amended. For every input the results name one of Zn and MnO2 as limiting reagent
  and the other one as excess reagent. When the masses and the molar masses are
  positive and both computed mole counts are finite, the excess moles are \<open>>= 0\<close>.
\<close>

theorem one_limiting_reagent:
  "(let r = fst (calculate h now c)
    in (limitingReagent r = ''Zn'' \<and> excessReagent r = ''MnO2'' \<or>
        limitingReagent r = ''MnO2'' \<and> excessReagent r = ''Zn'') \<and>
       limitingReagent r \<noteq> excessReagent r \<and>
       (js_gt (massZn c) (Fin 0) \<and> js_gt (massMnO2 c) (Fin 0) \<and>
        js_gt (molarMassZn c) (Fin 0) \<and> js_gt (molarMassMnO2 c) (Fin 0) \<and>
        isFinite_binary64 (molesZn r) \<and> isFinite_binary64 (molesMnO2 r) \<longrightarrow>
          js_ge (excessMoles r) (Fin 0)))"
proof -
  let ?r = "fst (calculate h now c)"
  have names: "(limitingReagent ?r = ''Zn'' \<and> excessReagent ?r = ''MnO2'' \<or>
                limitingReagent ?r = ''MnO2'' \<and> excessReagent ?r = ''Zn'') \<and>
               limitingReagent ?r \<noteq> excessReagent ?r"
    using calculate_limiting [of h now c] by (auto simp add: Let_def split: if_splits)
  have excess: "js_ge (excessMoles ?r) (Fin 0)"
    if fz: "isFinite_binary64 (molesZn ?r)" and fm: "isFinite_binary64 (molesMnO2 ?r)"
  proof -
    obtain nZn where "molesZn ?r = Fin nZn"
      using fz by (cases "molesZn ?r") simp_all
    moreover obtain nMnO2 where "molesMnO2 ?r = Fin nMnO2"
      using fm by (cases "molesMnO2 ?r") simp_all
    ultimately have m: "js_div (massZn c) (molarMassZn c) = Fin nZn"
      "js_div (massMnO2 c) (molarMassMnO2 c) = Fin nMnO2"
      by (simp_all add: calculate_moles)
    show ?thesis
    proof (cases "nMnO2 < nZn * 2")
      case True
      then show ?thesis
        using calculate_limiting [of h now c] by (simp add: m Let_def js_ge_def)
    next
      case False
      then show ?thesis
        using calculate_limiting [of h now c] by (simp add: m Let_def js_ge_def)
    qed
  qed
  show ?thesis
    unfolding Let_def using names excess by blast
qed

theorem one_limiting_reagent_witness:
  "js_gt (massZn (new_ChemistryCalculator PRESET_A)) (Fin 0) \<and>
   js_gt (massMnO2 (new_ChemistryCalculator PRESET_A)) (Fin 0) \<and>
   js_gt (molarMassZn (new_ChemistryCalculator PRESET_A)) (Fin 0) \<and>
   js_gt (molarMassMnO2 (new_ChemistryCalculator PRESET_A)) (Fin 0) \<and>
   isFinite_binary64 (molesZn (fst (calculate plain_host [] (new_ChemistryCalculator PRESET_A)))) \<and>
   isFinite_binary64 (molesMnO2 (fst (calculate plain_host [] (new_ChemistryCalculator PRESET_A)))) \<and>
   limitingReagent (fst (calculate plain_host [] (new_ChemistryCalculator PRESET_A))) = ''MnO2'' \<and>
   excessReagent (fst (calculate plain_host [] (new_ChemistryCalculator PRESET_A))) = ''Zn'' \<and>
   js_ge (excessMoles (fst (calculate plain_host [] (new_ChemistryCalculator PRESET_A)))) (Fin 0)"
proof -
  let ?c = "new_ChemistryCalculator PRESET_A"
  let ?r = "fst (calculate plain_host [] ?c)"
  have hyps: "js_gt (massZn ?c) (Fin 0)" "js_gt (massMnO2 ?c) (Fin 0)"
    "js_gt (molarMassZn ?c) (Fin 0)" "js_gt (molarMassMnO2 ?c) (Fin 0)"
    "isFinite_binary64 (molesZn ?r)" "isFinite_binary64 (molesMnO2 ?r)"
    by (simp_all add: preset_A_fields calculate_moles js_gt_def MAX_VALUE_def)
  have "js_ge (excessMoles ?r) (Fin 0)"
    using one_limiting_reagent [of plain_host "[]" ?c] hyps unfolding Let_def by blast
  then show ?thesis
    using hyps by (simp add: preset_A_limiting)
qed

subsection \<open>Electrons, charge and energy\<close>

lemma round_trip_rounded:
  assumes "rounded (j / 3600) wh" and "rounded (wh * 3600) b"
  shows "\<bar>b - j\<bar> \<le> (1 / 10 ^ 6) * \<bar>j\<bar>"
proof -
  define u :: real where "u = 1 / 2 ^ 53"
  have u: "0 \<le> u" "u * (1 + u) + u \<le> 1 / 10 ^ 6"
    by (simp_all add: u_def)
  have 1: "\<bar>wh - j / 3600\<bar> \<le> \<bar>j\<bar> / 3600 * u"
    using assms(1) by (simp add: rounded_def u_def)
  have "wh * 3600 - j = 3600 * (wh - j / 3600)"
    by (simp add: algebra_simps)
  then have "\<bar>wh * 3600 - j\<bar> = 3600 * \<bar>wh - j / 3600\<bar>"
    by (simp only: abs_mult)
  with 1 have 2: "\<bar>wh * 3600 - j\<bar> \<le> u * \<bar>j\<bar>"
    by (simp add: mult.commute)
  then have 3: "\<bar>wh * 3600\<bar> \<le> (1 + u) * \<bar>j\<bar>"
    by (simp add: algebra_simps)
  have "\<bar>b - wh * 3600\<bar> \<le> \<bar>wh * 3600\<bar> * u"
    using assms(2) by (simp add: rounded_def u_def)
  also have "\<dots> \<le> (1 + u) * \<bar>j\<bar> * u"
    using 3 u(1) by (rule mult_right_mono)
  finally have 4: "\<bar>b - wh * 3600\<bar> \<le> u * (1 + u) * \<bar>j\<bar>"
    by (simp add: mult.commute mult.left_commute)
  have "\<bar>b - j\<bar> \<le> \<bar>b - wh * 3600\<bar> + \<bar>wh * 3600 - j\<bar>"
    by linarith
  also have "\<dots> \<le> (u * (1 + u) + u) * \<bar>j\<bar>"
    using 2 4 by (simp add: algebra_simps)
  also have "\<dots> \<le> (1 / 10 ^ 6) * \<bar>j\<bar>"
    using u(2) by (rule mult_right_mono) simp
  finally show ?thesis .
qed

lemma rounded_refl: "rounded x x"
  by (simp add: rounded_def)

lemma infinite_voltage_fields:
  "massZn (new_ChemistryCalculator INFINITE_VOLTAGE) = Fin 0"
  "massMnO2 (new_ChemistryCalculator INFINITE_VOLTAGE) = Fin 0"
  "molarMassZn (new_ChemistryCalculator INFINITE_VOLTAGE) = Fin 65.38"
  "molarMassMnO2 (new_ChemistryCalculator INFINITE_VOLTAGE) = Fin 86.936"
  "electronsPerReaction (new_ChemistryCalculator INFINITE_VOLTAGE) = Fin 2"
  "cellVoltage (new_ChemistryCalculator INFINITE_VOLTAGE) = PInf"
  by (simp_all add: new_ChemistryCalculator_fields INFINITE_VOLTAGE_def no_options_def js_or_def)

lemma infinite_voltage_energy:
  "energyJ (fst (calculate h now (new_ChemistryCalculator INFINITE_VOLTAGE))) = NaN"
  "energyWh (fst (calculate h now (new_ChemistryCalculator INFINITE_VOLTAGE))) = NaN"
proof -
  let ?c = "new_ChemistryCalculator INFINITE_VOLTAGE"
  have "molesReacting (fst (calculate h now ?c)) = Fin 0"
    using calculate_limiting [of h now ?c] by (simp add: infinite_voltage_fields Let_def)
  then show "energyJ (fst (calculate h now ?c)) = NaN"
    by (simp add: calculate_electrochemistry infinite_voltage_fields signed_inf_def)
  then show "energyWh (fst (calculate h now ?c)) = NaN"
    by (simp add: calculate_electrochemistry(4))
qed

text \<open>
  C3, as stated: for every input \<open>energyWh * 3600\<close> equals \<open>energyJ\<close> within the
  relative tolerance \<open>1e-6\<close>. On a calculator made with the cell voltage
  \<open>Infinity\<close> and no masses, the charge is 0, \<open>energyJ = Infinity * 0\<close> is
  \<open>NaN\<close>, and so are \<open>energyWh\<close> and \<open>energyWh * 3600\<close>: they are neither equal
  nor within the tolerance.
\<close>

theorem energy_round_trip_counterexample:
  "js_gt (cellVoltage (new_ChemistryCalculator INFINITE_VOLTAGE)) (Fin 0) \<and>
   energyJ (fst (calculate plain_host [] (new_ChemistryCalculator INFINITE_VOLTAGE))) = NaN \<and>
   energyWh (fst (calculate plain_host [] (new_ChemistryCalculator INFINITE_VOLTAGE))) = NaN \<and>
   \<not> js_eq
      (js_mul (energyWh (fst (calculate plain_host [] (new_ChemistryCalculator INFINITE_VOLTAGE))))
         (Fin 3600))
      (energyJ (fst (calculate plain_host [] (new_ChemistryCalculator INFINITE_VOLTAGE)))) \<and>
   \<not> rel_close (1 / 10 ^ 6)
      (js_mul (energyWh (fst (calculate plain_host [] (new_ChemistryCalculator INFINITE_VOLTAGE))))
         (Fin 3600))
      (energyJ (fst (calculate plain_host [] (new_ChemistryCalculator INFINITE_VOLTAGE))))"
  by (simp add: infinite_voltage_energy infinite_voltage_fields js_gt_def)

text \<open>
  C3, amended. For every input \<open>calculate\<close> computes
  \<open>totalElectrons = electronsPerReaction * molesReacting\<close>,
  \<open>chargeQ = totalElectrons * 96485\<close>, \<open>energyJ = cellVoltage * chargeQ\<close> and
  \<open>energyWh = energyJ / 3600\<close>. When \<open>energyJ\<close> is zero or a finite number \<open>j\<close> of
  magnitude between \<open>2^-1000\<close> and \<open>2^1000\<close>, so that the division and the
  multiplication by 3600 neither underflow nor overflow, \<open>energyWh * 3600\<close> is within
  the relative tolerance \<open>1e-6\<close> of \<open>energyJ\<close>: in the exact arithmetic of the model,
  and for every \<open>wh\<close> and \<open>b\<close> that are \<open>j / 3600\<close> and \<open>wh * 3600\<close> rounded with a
  relative error of at most \<open>2^-53\<close>, as binary64 rounds them.
\<close>

theorem electrons_charge_energy:
  "(let r = fst (calculate h now c)
    in totalElectrons r = js_mul (electronsPerReaction c) (molesReacting r) \<and>
       chargeQ r = js_mul (totalElectrons r) (Fin 96485) \<and>
       energyJ r = js_mul (cellVoltage c) (chargeQ r) \<and>
       energyWh r = js_div (energyJ r) (Fin 3600) \<and>
       (energyJ r = Fin j \<and> no_underflow_overflow j \<longrightarrow>
          rel_close (1 / 10 ^ 6) (js_mul (energyWh r) (Fin 3600)) (energyJ r) \<and>
          (rounded (j / 3600) wh \<and> rounded (wh * 3600) b \<longrightarrow>
             rel_close (1 / 10 ^ 6) (Fin b) (Fin j))))"
proof -
  let ?r = "fst (calculate h now c)"
  have formulas:
    "totalElectrons ?r = js_mul (electronsPerReaction c) (molesReacting ?r)"
    "chargeQ ?r = js_mul (totalElectrons ?r) (Fin 96485)"
    "energyJ ?r = js_mul (cellVoltage c) (chargeQ ?r)"
    "energyWh ?r = js_div (energyJ ?r) (Fin 3600)"
    by (rule calculate_electrochemistry)+
  have general: "rel_close (1 / 10 ^ 6) (Fin b) (Fin j)"
    if "rounded (j / 3600) wh" and "rounded (wh * 3600) b"
    using round_trip_rounded [OF that] by simp
  have own: "rel_close (1 / 10 ^ 6) (js_mul (energyWh ?r) (Fin 3600)) (energyJ ?r)"
    if j: "energyJ ?r = Fin j"
  proof -
    have "js_mul (energyWh ?r) (Fin 3600) = Fin (j / 3600 * 3600)"
      using j by (simp add: formulas(4))
    moreover have "rel_close (1 / 10 ^ 6) (Fin (j / 3600 * 3600)) (Fin j)"
      using round_trip_rounded [of j "j / 3600" "j / 3600 * 3600"]
      by (simp only: rel_close.simps rounded_refl)
    ultimately show ?thesis
      using j by simp
  qed
  show ?thesis
    unfolding Let_def using formulas general own by blast
qed

lemma preset_A_values:
  "chargeQ (fst (calculate h now (new_ChemistryCalculator PRESET_A))) = Fin (24121250 / 10867)"
  "energyJ (fst (calculate h now (new_ChemistryCalculator PRESET_A))) = Fin (36181875 / 10867)"
  "energyWh (fst (calculate h now (new_ChemistryCalculator PRESET_A))) = Fin (482425 / 521616)"
  by (simp_all add: calculate_electrochemistry preset_A_limiting preset_A_fields)

lemma preset_B_values:
  "chargeQ (fst (calculate h now (new_ChemistryCalculator PRESET_B))) = Fin (96485000 / 3269)"
  "energyWh (fst (calculate h now (new_ChemistryCalculator PRESET_B))) = Fin (482425 / 39228)"
  by (simp_all add: calculate_electrochemistry preset_B_limiting preset_B_fields)

lemma tie_input_energy:
  "energyJ (fst (calculate h now (new_ChemistryCalculator TIE_INPUT))) = Fin 289455"
proof -
  let ?c = "new_ChemistryCalculator TIE_INPUT"
  have "molesReacting (fst (calculate h now ?c)) = Fin 1"
    using calculate_limiting [of h now ?c] by (simp add: tie_input_fields Let_def)
  then show ?thesis
    by (simp add: calculate_electrochemistry tie_input_fields)
qed

theorem electrons_charge_energy_witness:
  "energyJ (fst (calculate plain_host [] (new_ChemistryCalculator TIE_INPUT))) = Fin 289455 \<and>
   no_underflow_overflow 289455 \<and>
   rounded (289455 / 3600) (289455 / 3600 * (1 + 1 / 2 ^ 53)) \<and>
   rounded (289455 / 3600 * (1 + 1 / 2 ^ 53) * 3600)
     (289455 / 3600 * (1 + 1 / 2 ^ 53) * 3600 * (1 - 1 / 2 ^ 53)) \<and>
   rel_close (1 / 10 ^ 6)
     (js_mul (energyWh (fst (calculate plain_host [] (new_ChemistryCalculator TIE_INPUT))))
        (Fin 3600))
     (energyJ (fst (calculate plain_host [] (new_ChemistryCalculator TIE_INPUT)))) \<and>
   rel_close (1 / 10 ^ 6)
     (Fin (289455 / 3600 * (1 + 1 / 2 ^ 53) * 3600 * (1 - 1 / 2 ^ 53)))
     (Fin 289455)"
proof -
  let ?r = "fst (calculate plain_host [] (new_ChemistryCalculator TIE_INPUT))"
  let ?j = "289455 :: real"
  let ?wh = "289455 / 3600 * (1 + 1 / 2 ^ 53) :: real"
  let ?b = "?wh * 3600 * (1 - 1 / 2 ^ 53)"
  have hyps: "energyJ ?r = Fin ?j" "no_underflow_overflow ?j"
    "rounded (?j / 3600) ?wh" "rounded (?wh * 3600) ?b"
    by (simp_all add: tie_input_energy no_underflow_overflow_def rounded_def)
  have "rel_close (1 / 10 ^ 6) (js_mul (energyWh ?r) (Fin 3600)) (energyJ ?r) \<and>
        rel_close (1 / 10 ^ 6) (Fin ?b) (Fin ?j)"
    using electrons_charge_energy [of plain_host "[]" "new_ChemistryCalculator TIE_INPUT" ?j ?wh ?b]
      hyps
    unfolding Let_def by blast
  then show ?thesis
    using hyps by blast
qed

subsection \<open>The presets\<close>

text \<open>
  C5, as stated: on Preset A the charge is about 2220.6 C, the energy about 0.9253 Wh
  and \<open>molesMnO2\<close> about 0.023006; on Preset B the charge is about 29522 C. The
  calculator gives other values: on Preset A the charge is \<open>24121250 / 10867\<close>, below
  2219.68 C.
\<close>

theorem presets_counterexample:
  "chargeQ (fst (calculate plain_host [] (new_ChemistryCalculator PRESET_A))) =
     Fin (24121250 / 10867) \<and>
   \<not> about 2220.6 0.05 (chargeQ (fst (calculate plain_host [] (new_ChemistryCalculator PRESET_A)))) \<and>
   \<not> about 2220.6 0.9 (chargeQ (fst (calculate plain_host [] (new_ChemistryCalculator PRESET_A)))) \<and>
   \<not> about 0.9253 0.00005 (energyWh (fst (calculate plain_host [] (new_ChemistryCalculator PRESET_A)))) \<and>
   \<not> about 0.023006 0.0000005 (molesMnO2 (fst (calculate plain_host [] (new_ChemistryCalculator PRESET_A)))) \<and>
   \<not> about 29522 0.5 (chargeQ (fst (calculate plain_host [] (new_ChemistryCalculator PRESET_B))))"
  by (simp add: preset_A_values preset_B_values calculate_moles preset_A_fields)

text \<open>
  C5, amended. On Preset A (1.0 g of Zn, 2.0 g of MnO2, the default molar masses,
  voltage and electrons) \<open>calculate\<close> returns \<open>molesZn\<close> about 0.015295,
  \<open>molesMnO2\<close> about 0.023005, MnO2 as limiting reagent, a charge of about 2219.7 C
  and an energy of about 0.9249 Wh; on Preset B (10.0 g and 100.0 g) it returns Zn as
  limiting reagent, a charge of about 29515 C and an energy of about 12.30 Wh. Each
  value is within half a unit of its last decimal.
\<close>

theorem presets_values:
  "(let rA = fst (calculate h now (new_ChemistryCalculator PRESET_A));
        rB = fst (calculate h now (new_ChemistryCalculator PRESET_B))
    in about 0.015295 0.0000005 (molesZn rA) \<and>
       about 0.023005 0.0000005 (molesMnO2 rA) \<and>
       limitingReagent rA = ''MnO2'' \<and>
       about 2219.7 0.05 (chargeQ rA) \<and>
       about 0.9249 0.00005 (energyWh rA) \<and>
       limitingReagent rB = ''Zn'' \<and>
       about 29515 0.5 (chargeQ rB) \<and>
       about 12.30 0.005 (energyWh rB))"
  by (simp add: Let_def preset_A_values preset_B_values preset_A_limiting preset_B_limiting
        calculate_moles preset_A_fields)

subsection \<open>The load resistance\<close>

lemma js_gt_truthy: "js_gt R (Fin 0) \<Longrightarrow> truthy R"
  by (cases R) (auto simp: js_gt_def)

lemma load_resistance_eq:
  "load_resistance c =
     (case resistance c of None \<Rightarrow> None
      | Some R \<Rightarrow> if js_gt R (Fin 0) then Some R else None)"
  using js_gt_truthy by (auto simp: load_resistance_def split: option.splits)

lemma load_resistance_simps:
  "load_resistance (c\<lparr>resistance := None\<rparr>) = None"
  "js_gt R (Fin 0) \<Longrightarrow> load_resistance (c\<lparr>resistance := Some R\<rparr>) = Some R"
  "\<not> js_gt R (Fin 0) \<Longrightarrow> load_resistance (c\<lparr>resistance := Some R\<rparr>) = None"
  by (simp_all add: load_resistance_eq)

text \<open>
  C6. Let \<open>r0\<close> be the results on a calculator without resistance (\<open>null\<close>):
  its \<open>current\<close>, \<open>runtimeHours\<close> and \<open>runtimeMinutes\<close> are \<open>null\<close>. With a
  resistance \<open>R > 0\<close> the results are \<open>r0\<close> with \<open>current = cellVoltage / R\<close>,
  \<open>runtimeHours = energyWh / (cellVoltage * current)\<close> and
  \<open>runtimeMinutes = runtimeHours * 60\<close>; with a resistance that is not \<open>> 0\<close> the
  results are \<open>r0\<close>, the three fields \<open>null\<close>. In both cases the only other
  difference is the copy of the resistance kept in \<open>inputs\<close>.
\<close>

theorem resistance_current_runtime:
  "(let r0 = fst (calculate h now (c\<lparr>resistance := None\<rparr>));
        r = fst (calculate h now (c\<lparr>resistance := rho\<rparr>))
    in current r0 = None \<and> runtimeHours r0 = None \<and> runtimeMinutes r0 = None \<and>
       r = (case rho of
              None \<Rightarrow> r0
            | Some R \<Rightarrow>
                if js_gt R (Fin 0)
                then r0\<lparr> inputs := (inputs r0)\<lparr> in_resistance := Some R \<rparr>,
                         current := Some (js_div (cellVoltage c) R),
                         runtimeHours := Some (js_div (energyWh r0)
                            (js_mul (cellVoltage c) (js_div (cellVoltage c) R))),
                         runtimeMinutes := Some (js_mul (js_div (energyWh r0)
                            (js_mul (cellVoltage c) (js_div (cellVoltage c) R))) (Fin 60)) \<rparr>
                else r0\<lparr> inputs := (inputs r0)\<lparr> in_resistance := Some R \<rparr> \<rparr>))"
proof (cases rho)
  case None
  then show ?thesis
    by (simp add: calculate_def Let_def split_def load_resistance_simps)
next
  case (Some R)
  show ?thesis
  proof (cases "js_gt R (Fin 0)")
    case True
    then show ?thesis
      unfolding Some by (simp add: calculate_def Let_def split_def load_resistance_simps)
  next
    case False
    then show ?thesis
      unfolding Some by (simp add: calculate_def Let_def split_def load_resistance_simps)
  qed
qed

lemma preset_A_no_resistance:
  "(new_ChemistryCalculator PRESET_A)\<lparr>resistance := None\<rparr> = new_ChemistryCalculator PRESET_A"
  by (simp add: new_ChemistryCalculator_def PRESET_A_def no_options_def js_or_null_def)

theorem resistance_current_runtime_witness:
  "current (fst (calculate plain_host []
      ((new_ChemistryCalculator PRESET_A)\<lparr>resistance := Some (Fin 10)\<rparr>))) = Some (Fin 0.15) \<and>
   runtimeHours (fst (calculate plain_host []
      ((new_ChemistryCalculator PRESET_A)\<lparr>resistance := Some (Fin 10)\<rparr>))) =
     Some (Fin (482425 / 521616 / 0.225)) \<and>
   runtimeMinutes (fst (calculate plain_host []
      ((new_ChemistryCalculator PRESET_A)\<lparr>resistance := Some (Fin 10)\<rparr>))) =
     Some (Fin (482425 / 521616 / 0.225 * 60)) \<and>
   current (fst (calculate plain_host []
      ((new_ChemistryCalculator PRESET_A)\<lparr>resistance := Some (Fin (- 5))\<rparr>))) = None \<and>
   chargeQ (fst (calculate plain_host []
      ((new_ChemistryCalculator PRESET_A)\<lparr>resistance := Some (Fin (- 5))\<rparr>))) =
     Fin (24121250 / 10867)"
proof -
  let ?c = "new_ChemistryCalculator PRESET_A"
  let ?r0 = "fst (calculate plain_host [] ?c)"
  have r0: "current ?r0 = None" "chargeQ ?r0 = Fin (24121250 / 10867)"
    "energyWh ?r0 = Fin (482425 / 521616)"
    using resistance_current_runtime [of plain_host "[]" ?c None]
    by (simp_all add: Let_def preset_A_no_resistance preset_A_values)
  have pos: "fst (calculate plain_host [] (?c\<lparr>resistance := Some (Fin 10)\<rparr>)) =
      ?r0\<lparr> inputs := (inputs ?r0)\<lparr> in_resistance := Some (Fin 10) \<rparr>,
           current := Some (Fin 0.15),
           runtimeHours := Some (Fin (482425 / 521616 / 0.225)),
           runtimeMinutes := Some (Fin (482425 / 521616 / 0.225 * 60)) \<rparr>"
    using resistance_current_runtime [of plain_host "[]" ?c "Some (Fin 10)"]
    by (simp add: Let_def js_gt_def preset_A_no_resistance preset_A_fields r0)
  have neg: "fst (calculate plain_host [] (?c\<lparr>resistance := Some (Fin (- 5))\<rparr>)) =
      ?r0\<lparr> inputs := (inputs ?r0)\<lparr> in_resistance := Some (Fin (- 5)) \<rparr> \<rparr>"
    using resistance_current_runtime [of plain_host "[]" ?c "Some (Fin (- 5))"]
    by (simp add: Let_def js_gt_def preset_A_no_resistance)
  show ?thesis
    by (simp add: pos neg r0)
qed

subsection \<open>Molar masses that are zero or negative\<close>

text \<open>
  C8, as stated: a molar mass of zero makes the division a division by zero. It does
  not on a calculator made by the constructor: \<open>options.molarMassZn || 65.38\<close>
  replaces the zero by the default, and the mole counts are finite and positive.
\<close>

theorem zero_molar_mass_counterexample:
  "molarMassZn (new_ChemistryCalculator ZERO_MOLAR_MASS) = Fin 65.38 \<and>
   molarMassMnO2 (new_ChemistryCalculator ZERO_MOLAR_MASS) = Fin 86.936 \<and>
   molesZn (fst (calculate plain_host [] (new_ChemistryCalculator ZERO_MOLAR_MASS))) =
     js_div (Fin 1) (Fin 65.38) \<and>
   molesMnO2 (fst (calculate plain_host [] (new_ChemistryCalculator ZERO_MOLAR_MASS))) =
     js_div (Fin 2) (Fin 86.936) \<and>
   is_finite (molesZn (fst (calculate plain_host [] (new_ChemistryCalculator ZERO_MOLAR_MASS)))) \<and>
   js_gt (molesZn (fst (calculate plain_host [] (new_ChemistryCalculator ZERO_MOLAR_MASS)))) (Fin 0) \<and>
   is_finite (molesMnO2 (fst (calculate plain_host [] (new_ChemistryCalculator ZERO_MOLAR_MASS)))) \<and>
   js_gt (molesMnO2 (fst (calculate plain_host [] (new_ChemistryCalculator ZERO_MOLAR_MASS)))) (Fin 0)"
  by (simp add: calculate_moles new_ChemistryCalculator_fields ZERO_MOLAR_MASS_def
        no_options_def js_or_def js_gt_def)

lemma js_or_truthy: "truthy d \<Longrightarrow> truthy (js_or a d)"
  by (simp add: js_or_def split: option.splits)

lemma js_div_zero: "\<not> is_finite (js_div a (Fin 0))"
  by (cases a) (simp_all add: signed_inf_def)

text \<open>
  C8, amended. Nothing is validated and no error is raised. Whatever its options, the
  constructor leaves a molar mass that is truthy, hence not zero: a molar mass of zero
  is replaced by the default (65.38 or 86.936), so that a calculator made by it does
  not divide by zero. It keeps a negative molar mass \<open>M\<close>: with a positive mass \<open>m\<close>
  the mole count in the results is \<open>m / M\<close> as computed, and it is negative when the
  quotient does not underflow (its magnitude is at least \<open>2^-1074\<close>). \<open>calculate\<close>
  itself divides unguarded: on a calculator whose molar-mass field is zero the mole
  count in the results is the quotient by zero, which is not finite (an infinity or
  \<open>NaN\<close>).
\<close>

theorem molar_mass_not_validated:
  "truthy (molarMassZn (new_ChemistryCalculator opts)) \<and>
   truthy (molarMassMnO2 (new_ChemistryCalculator opts)) \<and>
   molarMassZn (new_ChemistryCalculator opts) \<noteq> Fin 0 \<and>
   molarMassMnO2 (new_ChemistryCalculator opts) \<noteq> Fin 0 \<and>
   molarMassZn (new_ChemistryCalculator (opts\<lparr>opt_molarMassZn := Some (Fin 0)\<rparr>)) =
     MOLAR_MASS_ZN \<and>
   molarMassMnO2 (new_ChemistryCalculator (opts\<lparr>opt_molarMassMnO2 := Some (Fin 0)\<rparr>)) =
     MOLAR_MASS_MNO2 \<and>
   (M < 0 \<and> 0 < m \<and> 1 / 2 ^ 1074 \<le> m / - M \<longrightarrow>
      (let r = fst (calculate h now (new_ChemistryCalculator
                 (opts\<lparr>opt_molarMassZn := Some (Fin M), opt_massZn := Some (Fin m)\<rparr>)))
       in molesZn r = js_div (Fin m) (Fin M) \<and> js_lt (molesZn r) (Fin 0)) \<and>
      (let r = fst (calculate h now (new_ChemistryCalculator
                 (opts\<lparr>opt_molarMassMnO2 := Some (Fin M), opt_massMnO2 := Some (Fin m)\<rparr>)))
       in molesMnO2 r = js_div (Fin m) (Fin M) \<and> js_lt (molesMnO2 r) (Fin 0))) \<and>
   (let r = fst (calculate h now (c\<lparr>molarMassZn := Fin 0\<rparr>))
    in molesZn r = js_div (massZn c) (Fin 0) \<and> \<not> is_finite (molesZn r)) \<and>
   (let r = fst (calculate h now (c\<lparr>molarMassMnO2 := Fin 0\<rparr>))
    in molesMnO2 r = js_div (massMnO2 c) (Fin 0) \<and> \<not> is_finite (molesMnO2 r))"
proof -
  have t: "truthy (molarMassZn (new_ChemistryCalculator opts))"
    "truthy (molarMassMnO2 (new_ChemistryCalculator opts))"
    by (simp_all add: new_ChemistryCalculator_fields js_or_truthy)
  then have nz: "molarMassZn (new_ChemistryCalculator opts) \<noteq> Fin 0"
    "molarMassMnO2 (new_ChemistryCalculator opts) \<noteq> Fin 0"
    by auto
  have dflt:
    "molarMassZn (new_ChemistryCalculator (opts\<lparr>opt_molarMassZn := Some (Fin 0)\<rparr>)) =
       MOLAR_MASS_ZN"
    "molarMassMnO2 (new_ChemistryCalculator (opts\<lparr>opt_molarMassMnO2 := Some (Fin 0)\<rparr>)) =
       MOLAR_MASS_MNO2"
    by (simp_all add: new_ChemistryCalculator_fields chemistry_constants js_or_def)
  have neg:
    "(let r = fst (calculate h now (new_ChemistryCalculator
                 (opts\<lparr>opt_molarMassZn := Some (Fin M), opt_massZn := Some (Fin m)\<rparr>)))
       in molesZn r = js_div (Fin m) (Fin M) \<and> js_lt (molesZn r) (Fin 0)) \<and>
      (let r = fst (calculate h now (new_ChemistryCalculator
                 (opts\<lparr>opt_molarMassMnO2 := Some (Fin M), opt_massMnO2 := Some (Fin m)\<rparr>)))
       in molesMnO2 r = js_div (Fin m) (Fin M) \<and> js_lt (molesMnO2 r) (Fin 0))"
    if "M < 0" and "0 < m"
  proof -
    have "m / M < 0"
      using that by (simp add: divide_pos_neg)
    moreover have "M \<noteq> 0" "m \<noteq> 0"
      using that by auto
    ultimately show ?thesis
      by (simp add: calculate_moles new_ChemistryCalculator_fields js_or_def Let_def)
  qed
  have zero:
    "(let r = fst (calculate h now (c\<lparr>molarMassZn := Fin 0\<rparr>))
      in molesZn r = js_div (massZn c) (Fin 0) \<and> \<not> is_finite (molesZn r))"
    "(let r = fst (calculate h now (c\<lparr>molarMassMnO2 := Fin 0\<rparr>))
      in molesMnO2 r = js_div (massMnO2 c) (Fin 0) \<and> \<not> is_finite (molesMnO2 r))"
    by (simp_all add: calculate_moles js_div_zero Let_def)
  show ?thesis
    using t nz dflt neg zero by blast
qed

theorem molar_mass_not_validated_witness:
  "(- 1 :: real) < 0 \<and> (0::real) < 1 \<and> (1 :: real) / 2 ^ 1074 \<le> 1 / - (- 1) \<and>
   molesZn (fst (calculate plain_host [] (new_ChemistryCalculator
      (no_options\<lparr>opt_molarMassZn := Some (Fin (- 1)), opt_massZn := Some (Fin 1)\<rparr>)))) =
     Fin (- 1) \<and>
   js_lt (molesZn (fst (calculate plain_host [] (new_ChemistryCalculator
      (no_options\<lparr>opt_molarMassZn := Some (Fin (- 1)), opt_massZn := Some (Fin 1)\<rparr>)))))
     (Fin 0) \<and>
   truthy (molarMassZn (new_ChemistryCalculator ZERO_MOLAR_MASS)) \<and>
   \<not> is_finite (molesZn (fst (calculate plain_host []
      ((new_ChemistryCalculator PRESET_A)\<lparr>molarMassZn := Fin 0\<rparr>))))"
proof -
  have h: "(- 1 :: real) < 0" "(0::real) < 1" "(1 :: real) / 2 ^ 1074 \<le> 1 / - (- 1)"
    by simp_all
  let ?r = "fst (calculate plain_host [] (new_ChemistryCalculator
      (no_options\<lparr>opt_molarMassZn := Some (Fin (- 1)), opt_massZn := Some (Fin 1)\<rparr>)))"
  have "molesZn ?r = js_div (Fin 1) (Fin (- 1)) \<and> js_lt (molesZn ?r) (Fin 0)"
    using molar_mass_not_validated [of no_options "- 1" 1 plain_host "[]"
        "new_ChemistryCalculator PRESET_A"] h
    unfolding Let_def by blast
  moreover have "truthy (molarMassZn (new_ChemistryCalculator ZERO_MOLAR_MASS))"
    using molar_mass_not_validated [of ZERO_MOLAR_MASS "- 1" 1 plain_host "[]"
        "new_ChemistryCalculator PRESET_A"]
    by blast
  moreover have "\<not> is_finite (molesZn (fst (calculate plain_host []
      ((new_ChemistryCalculator PRESET_A)\<lparr>molarMassZn := Fin 0\<rparr>))))"
    using molar_mass_not_validated [of no_options "- 1" 1 plain_host "[]"
        "new_ChemistryCalculator PRESET_A"]
    unfolding Let_def by blast
  ultimately show ?thesis
    using h by simp
qed

subsection \<open>Calling \<open>calculate\<close> again\<close>

lemma calculate_frame:
  "calculate h now (c\<lparr>workSteps := w, results := r\<rparr>) = calculate h now c"
  by (cases "resistance c")
     (simp_all add: calculate_def Let_def split_def load_resistance_def step_moles_def
        step_electrons_def step_energy_def step_runtime_def)

lemma calculate_snd:
  "snd (calculate h now c) =
     c\<lparr>workSteps := workSteps (snd (calculate h now c)),
       results := Some (fst (calculate h now c))\<rparr>"
  by (simp add: calculate_def Let_def split_def)

lemma calculate_now:
  "fst (calculate h t2 c) = (fst (calculate h t1 c))\<lparr>timestamp := t2\<rparr>"
  "snd (calculate h t2 c) = (snd (calculate h t1 c))\<lparr>results := Some (fst (calculate h t2 c))\<rparr>"
  by (simp_all add: calculate_def Let_def split_def)

lemma calculate_twice:
  "(let (r1, c1) = calculate h t1 c; (r2, c2) = calculate h t2 c1
    in r2 = r1\<lparr>timestamp := t2\<rparr> \<and> workSteps c2 = workSteps c1 \<and>
       c2 = c1\<lparr>results := Some r2\<rparr>)"
proof -
  have "calculate h t2 (snd (calculate h t1 c)) = calculate h t2 c"
    by (subst calculate_snd) (rule calculate_frame)
  then show ?thesis
    using calculate_now [of h t2 c t1] by (simp add: split_def Let_def)
qed

section \<open>Properties of the magnetic field calculator\<close>

subsection \<open>The fields of the results object\<close>

lemma MU_0_value: "MU_0 = Fin (4 * pi * 0.0000001)"
  by (simp add: MU_0_def Math_PI_def)

lemma getMu_r_table:
  "getMu_r c =
     (if material c = ''air'' then Fin 1 else if material c = ''ferrite'' then Fin 2000
      else if material c = ''steel'' then Fin 4000 else Fin 1)"
  by (simp add: getMu_r_def PERMEABILITY_def js_or_def)

lemma mf_step_frame:
  "step_wire h (c\<lparr>mf_workSteps := w\<rparr>) = step_wire h c"
  "step_loop h (c\<lparr>mf_workSteps := w\<rparr>) = step_loop h c"
  "step_solenoid h (c\<lparr>mf_workSteps := w\<rparr>) = step_solenoid h c"
  "step_turns_density h (c\<lparr>mf_workSteps := w\<rparr>) = step_turns_density h c"
  "getMu_r (c\<lparr>mf_workSteps := w\<rparr>) = getMu_r c"
  by (simp_all add: fun_eq_iff step_wire_def step_loop_def step_solenoid_def
        step_turns_density_def getMu_r_def)

lemmas mf_unfold =
  mf_calculate_def Let_def split_def calculateStraightWire_def calculateSingleLoop_def
  calculateSolenoid_def

lemma mf_calculate_B:
  "fr_B (fst (mf_calculate h now c)) =
     (if conductorType c = ''straight-wire''
      then js_div (js_mul MU_0 (mf_current c)) (js_mul (js_mul (Fin 2) Math_PI) (distance c))
      else if conductorType c = ''single-loop''
      then js_div (js_mul (js_mul (js_mul MU_0 (getMu_r c)) (turns c)) (mf_current c))
             (js_mul (Fin 2) (radius c))
      else js_div (js_mul (js_mul (js_mul MU_0 (getMu_r c)) (turns c)) (mf_current c))
             (mf_length c))"
  by (simp add: mf_unfold mf_step_frame)

lemma mf_calculate_steps:
  "mf_workSteps (snd (mf_calculate h now c)) =
     (if conductorType c = ''straight-wire''
      then [step_wire h c MU_0 (fr_B (fst (mf_calculate h now c))), step_wire_direction]
      else if conductorType c = ''single-loop''
      then [step_loop h c MU_0 (getMu_r c) (fr_B (fst (mf_calculate h now c))),
            step_loop_direction]
      else [step_solenoid h c MU_0 (getMu_r c) (fr_B (fst (mf_calculate h now c))),
            step_solenoid_properties, step_turns_density h c])"
  by (simp add: mf_unfold mf_step_frame)

lemma mf_calculate_formula:
  "fr_formula (fst (mf_calculate h now c)) =
     (if conductorType c = ''straight-wire'' then ''B = mu0 x I / (2 pi r)''
      else if conductorType c = ''single-loop'' then ''B ~ mu0 x mur x N x I / (2r)''
      else ''B = mu0 x mur x N x I / L'')"
  by (simp add: mf_unfold)

lemma mf_calculate_mu_r:
  "fi_mu_r (fr_inputs (fst (mf_calculate h now c))) = getMu_r c"
  by (simp add: mf_unfold mf_step_frame)

lemma preset_solenoid_fields:
  "conductorType (new_MagneticFieldCalculator PRESET_SOLENOID) = ''solenoid''"
  "mf_current (new_MagneticFieldCalculator PRESET_SOLENOID) = Fin 2"
  "turns (new_MagneticFieldCalculator PRESET_SOLENOID) = Fin 200"
  "mf_length (new_MagneticFieldCalculator PRESET_SOLENOID) = Fin 0.05"
  "material (new_MagneticFieldCalculator PRESET_SOLENOID) = ''air''"
  by (simp_all add: new_MagneticFieldCalculator_def PRESET_SOLENOID_def js_or_def str_or_def)

subsection \<open>The three formulas\<close>

text \<open>
  C4. \<open>calculate\<close> returns \<open>B\<close> by one of three formulas, chosen by
  \<open>conductorType\<close>, with \<open>mu_0 = 4 * pi * 1e-7\<close>: for \<open>straight-wire\<close>
  \<open>B = mu_0 * I / (2 * pi * distance)\<close>, whatever the material; for \<open>single-loop\<close>
  \<open>B = mu_0 * mu_r * N * I / (2 * radius)\<close>; for \<open>solenoid\<close>
  \<open>B = mu_0 * mu_r * N * I / length\<close>, and the last work step reports the turns
  density \<open>N / length\<close>. \<open>mu_r\<close> is 1 for air, 2000 for ferrite and 4000 for
  steel.
\<close>

theorem field_formulas:
  "(let r = fst (mf_calculate h now c);
        steps = mf_workSteps (snd (mf_calculate h now c));
        mu_0 = Fin (4 * pi * 0.0000001);
        mu_r = getMu_r c
    in fr_B r =
         (if conductorType c = ''straight-wire''
          then js_div (js_mul mu_0 (mf_current c)) (js_mul (js_mul (Fin 2) (Fin pi)) (distance c))
          else if conductorType c = ''single-loop''
          then js_div (js_mul (js_mul (js_mul mu_0 mu_r) (turns c)) (mf_current c))
                 (js_mul (Fin 2) (radius c))
          else js_div (js_mul (js_mul (js_mul mu_0 mu_r) (turns c)) (mf_current c))
                 (mf_length c)) \<and>
       mu_r =
         (if material c = ''air'' then Fin 1 else if material c = ''ferrite'' then Fin 2000
          else if material c = ''steel'' then Fin 4000 else Fin 1) \<and>
       fr_B (fst (mf_calculate h now (c\<lparr>conductorType := ''straight-wire'', material := m\<rparr>))) =
         js_div (js_mul mu_0 (mf_current c)) (js_mul (js_mul (Fin 2) (Fin pi)) (distance c)) \<and>
       steps =
         (if conductorType c = ''straight-wire''
          then [step_wire h c mu_0 (fr_B r), step_wire_direction]
          else if conductorType c = ''single-loop''
          then [step_loop h c mu_0 mu_r (fr_B r), step_loop_direction]
          else [step_solenoid h c mu_0 mu_r (fr_B r), step_solenoid_properties,
                step_turns_density h c]) \<and>
       hd (calculations (step_turns_density h c)) =
         ''n = N/L = '' @ toStr h (turns c) @ ''/'' @ toStr h (mf_length c) @ '' = ''
           @ toFixed h 1 (js_div (turns c) (mf_length c)) @ '' turns/m'')"
  by (simp add: Let_def mf_calculate_B mf_calculate_steps MU_0_value Math_PI_def
        getMu_r_table step_turns_density_def)

theorem field_formulas_witness:
  "fr_B (fst (mf_calculate plain_host [] (new_MagneticFieldCalculator PRESET_SOLENOID))) =
     Fin (4 * pi * 0.0000001 * 1 * 200 * 2 / 0.05) \<and>
   last (mf_workSteps (snd (mf_calculate plain_host []
      (new_MagneticFieldCalculator PRESET_SOLENOID)))) =
     step_turns_density plain_host (new_MagneticFieldCalculator PRESET_SOLENOID)"
  using field_formulas [of plain_host "[]" "new_MagneticFieldCalculator PRESET_SOLENOID"]
  by (simp add: Let_def preset_solenoid_fields getMu_r_table)

subsection \<open>Unknown conductor types and materials\<close>

text \<open>
  C7. When \<open>conductorType\<close> is none of \<open>straight-wire\<close>, \<open>single-loop\<close> and
  \<open>solenoid\<close>, \<open>calculate\<close> returns as for a solenoid:
  \<open>B = mu_0 * mu_r * N * I / length\<close>, the solenoid's formula text and work steps,
  and results that differ from the solenoid's only in the copy of \<open>conductorType\<close>.
\<close>

theorem unknown_conductor_type:
  assumes "conductorType c \<noteq> ''straight-wire''" and "conductorType c \<noteq> ''single-loop''"
    and "conductorType c \<noteq> ''solenoid''"
  shows "(let r = fst (mf_calculate h now c);
              rs = fst (mf_calculate h now (c\<lparr>conductorType := ''solenoid''\<rparr>))
          in fr_B r =
               js_div (js_mul (js_mul (js_mul MU_0 (getMu_r c)) (turns c)) (mf_current c))
                 (mf_length c) \<and>
             fr_formula r = ''B = mu0 x mur x N x I / L'' \<and>
             r = rs\<lparr>fr_conductorType := conductorType c\<rparr> \<and>
             mf_workSteps (snd (mf_calculate h now c)) =
               mf_workSteps (snd (mf_calculate h now (c\<lparr>conductorType := ''solenoid''\<rparr>))))"
  using assms
  by (simp add: mf_unfold mf_step_frame getMu_r_def step_solenoid_def step_turns_density_def)

theorem unknown_conductor_type_witness:
  "''toroid'' \<noteq> ''straight-wire'' \<and> ''toroid'' \<noteq> ''single-loop'' \<and>
   ''toroid'' \<noteq> ''solenoid'' \<and>
   fr_B (fst (mf_calculate plain_host []
      ((new_MagneticFieldCalculator PRESET_SOLENOID)\<lparr>conductorType := ''toroid''\<rparr>))) =
     Fin (4 * pi * 0.0000001 * 1 * 200 * 2 / 0.05) \<and>
   fr_formula (fst (mf_calculate plain_host []
      ((new_MagneticFieldCalculator PRESET_SOLENOID)\<lparr>conductorType := ''toroid''\<rparr>))) =
     ''B = mu0 x mur x N x I / L''"
proof -
  let ?c = "(new_MagneticFieldCalculator PRESET_SOLENOID)\<lparr>conductorType := ''toroid''\<rparr>"
  have t: "conductorType ?c \<noteq> ''straight-wire''" "conductorType ?c \<noteq> ''single-loop''"
    "conductorType ?c \<noteq> ''solenoid''"
    by simp_all
  have "fr_B (fst (mf_calculate plain_host [] ?c)) =
          js_div (js_mul (js_mul (js_mul MU_0 (getMu_r ?c)) (turns ?c)) (mf_current ?c))
            (mf_length ?c) \<and>
        fr_formula (fst (mf_calculate plain_host [] ?c)) = ''B = mu0 x mur x N x I / L''"
    using unknown_conductor_type [OF t, of plain_host "[]"]
    unfolding Let_def by blast
  then show ?thesis
    by (simp add: preset_solenoid_fields getMu_r_table MU_0_value)
qed

text \<open>
  C10. When \<open>material\<close> is none of \<open>air\<close>, \<open>ferrite\<close> and \<open>steel\<close>,
  \<open>getMu_r\<close> returns 1, the value of air: \<open>calculate\<close> records \<open>mu_r = 1\<close> and
  returns the \<open>B\<close> that it returns for air.
\<close>

theorem unknown_material:
  assumes "material c \<noteq> ''air''" and "material c \<noteq> ''ferrite''"
    and "material c \<noteq> ''steel''"
  shows "getMu_r c = Fin 1 \<and>
         getMu_r c = getMu_r (c\<lparr>material := ''air''\<rparr>) \<and>
         fi_mu_r (fr_inputs (fst (mf_calculate h now c))) = Fin 1 \<and>
         fr_B (fst (mf_calculate h now c)) =
           fr_B (fst (mf_calculate h now (c\<lparr>material := ''air''\<rparr>)))"
  using assms by (simp add: mf_calculate_B mf_calculate_mu_r getMu_r_table)

theorem unknown_material_witness:
  "''copper'' \<noteq> ''air'' \<and> ''copper'' \<noteq> ''ferrite'' \<and> ''copper'' \<noteq> ''steel'' \<and>
   getMu_r ((new_MagneticFieldCalculator PRESET_SOLENOID)\<lparr>material := ''copper''\<rparr>) = Fin 1 \<and>
   fr_B (fst (mf_calculate plain_host []
      ((new_MagneticFieldCalculator PRESET_SOLENOID)\<lparr>material := ''copper''\<rparr>))) =
     Fin (4 * pi * 0.0000001 * 1 * 200 * 2 / 0.05)"
  using unknown_material [of
      "(new_MagneticFieldCalculator PRESET_SOLENOID)\<lparr>material := ''copper''\<rparr>"
      plain_host "[]"]
  by (simp add: mf_calculate_B preset_solenoid_fields getMu_r_table MU_0_value)

section \<open>Calling the calculators twice\<close>

lemma mf_calculate_frame:
  "mf_calculate h now (c\<lparr>mf_workSteps := w, mf_results := r\<rparr>) = mf_calculate h now c"
  by (simp add: mf_unfold mf_step_frame getMu_r_def step_wire_def step_loop_def
        step_solenoid_def step_turns_density_def)

lemma mf_calculate_snd:
  "snd (mf_calculate h now c) =
     c\<lparr>mf_workSteps := mf_workSteps (snd (mf_calculate h now c)),
       mf_results := Some (fst (mf_calculate h now c))\<rparr>"
  by (simp add: mf_unfold)

lemma mf_calculate_now:
  "fst (mf_calculate h t2 c) = (fst (mf_calculate h t1 c))\<lparr>fr_timestamp := t2\<rparr>"
  "snd (mf_calculate h t2 c) =
     (snd (mf_calculate h t1 c))\<lparr>mf_results := Some (fst (mf_calculate h t2 c))\<rparr>"
  by (simp_all add: mf_unfold)

lemma mf_calculate_twice:
  "(let (r1, c1) = mf_calculate h t1 c; (r2, c2) = mf_calculate h t2 c1
    in r2 = r1\<lparr>fr_timestamp := t2\<rparr> \<and> mf_workSteps c2 = mf_workSteps c1 \<and>
       c2 = c1\<lparr>mf_results := Some r2\<rparr>)"
proof -
  have "mf_calculate h t2 (snd (mf_calculate h t1 c)) = mf_calculate h t2 c"
    by (subst mf_calculate_snd) (rule mf_calculate_frame)
  then show ?thesis
    using mf_calculate_now [of h t2 c t1] by (simp add: split_def Let_def)
qed

text \<open>
  C9. Both calculators are deterministic and idempotent. \<open>calculate\<close> is a function
  of the input fields, the host's formatting functions and the clock: the \<open>results\<close>
  and \<open>workSteps\<close> that an earlier call left in the calculator do not change what it
  returns. Called a second time on the calculator that the first call left, at the
  time \<open>t2\<close>, it returns the results of the first call with the timestamp \<open>t2\<close>
  and leaves the same work steps.
\<close>

theorem calculate_idempotent:
  "(let (r1, c1) = calculate h t1 c; (r2, c2) = calculate h t2 c1
    in r2 = r1\<lparr>timestamp := t2\<rparr> \<and> workSteps c2 = workSteps c1 \<and>
       c2 = c1\<lparr>results := Some r2\<rparr>) \<and>
   calculate h t1 (c\<lparr>workSteps := w, results := rs\<rparr>) = calculate h t1 c \<and>
   (let (r1, c1) = mf_calculate h t1 m; (r2, c2) = mf_calculate h t2 c1
    in r2 = r1\<lparr>fr_timestamp := t2\<rparr> \<and> mf_workSteps c2 = mf_workSteps c1 \<and>
       c2 = c1\<lparr>mf_results := Some r2\<rparr>) \<and>
   mf_calculate h t1 (m\<lparr>mf_workSteps := w', mf_results := rs'\<rparr>) = mf_calculate h t1 m"
  using calculate_twice [of h t1 c t2] mf_calculate_twice [of h t1 m t2]
  by (simp only: calculate_frame mf_calculate_frame simp_thms)

theorem calculate_idempotent_witness:
  "fst (calculate plain_host ''t2''
         (snd (calculate plain_host ''t1'' (new_ChemistryCalculator PRESET_A)))) =
     (fst (calculate plain_host ''t1'' (new_ChemistryCalculator PRESET_A)))\<lparr>timestamp := ''t2''\<rparr> \<and>
   workSteps (snd (calculate plain_host ''t2''
         (snd (calculate plain_host ''t1'' (new_ChemistryCalculator PRESET_A))))) =
     workSteps (snd (calculate plain_host ''t1'' (new_ChemistryCalculator PRESET_A))) \<and>
   fst (mf_calculate plain_host ''t2''
         (snd (mf_calculate plain_host ''t1'' (new_MagneticFieldCalculator PRESET_SOLENOID)))) =
     (fst (mf_calculate plain_host ''t1'' (new_MagneticFieldCalculator PRESET_SOLENOID)))
       \<lparr>fr_timestamp := ''t2''\<rparr> \<and>
   mf_workSteps (snd (mf_calculate plain_host ''t2''
         (snd (mf_calculate plain_host ''t1'' (new_MagneticFieldCalculator PRESET_SOLENOID))))) =
     mf_workSteps (snd (mf_calculate plain_host ''t1''
         (new_MagneticFieldCalculator PRESET_SOLENOID)))"
  using calculate_idempotent [where h = plain_host and ?t1.0 = "''t1''" and ?t2.0 = "''t2''"
      and c = "new_ChemistryCalculator PRESET_A"
      and m = "new_MagneticFieldCalculator PRESET_SOLENOID"]
  unfolding split_def Let_def by blast

end
